theory Spec2Isabelle
  imports Main "HOL-Library.AList" "HOL-Library.Char_ord" "HOL-Library.List_Lexorder"
    "HOL-Library.Multiset"
begin

section \<open>Values of the program\<close>

text \<open>
  The program of \<^verbatim>\<open>app.py\<close> works on decoded JSON documents: the
  configuration file, the user records inside it and the messages of the remote API are
  Python dicts, lists, strings, integers, booleans and \<^verbatim>\<open>None\<close>. A dict keeps its
  insertion order, so it is modelled as an association list with distinct keys:
  \<^const>\<open>map_of\<close> is \<^verbatim>\<open>d.get(k)\<close>, \<^const>\<open>AList.update\<close> is
  \<^verbatim>\<open>d[k] = v\<close> (an existing key keeps its place, a new key goes to the end) and
  \<^const>\<open>AList.delete\<close> is \<^verbatim>\<open>d.pop(k, None)\<close>. A Python \<^verbatim>\<open>str\<close> is the
  list of bytes of its UTF-8 encoding. JSON numbers are the integers; numbers with a
  fraction are outside this model.
\<close>

datatype json =
    JNull
  | JBool bool
  | JInt int
  | JStr string
  | JList "json list"
  | JObj "(string \<times> json) list"

type_synonym pydict = "(string \<times> json) list"

datatype error =
    KeyError string
  | TypeError
  | AttributeError
  | HTTPError int string
  | NetworkError string
  | JSONDecodeError
  | ValueError
  | OverflowError

text \<open>
  \<^verbatim>\<open>requests.HTTPError\<close> (raised by \<^verbatim>\<open>raise_for_status\<close>, carrying the status
  and the body of the response), the connection errors and timeouts raised by
  \<^verbatim>\<open>requests.request\<close> and the decoding error raised by \<^verbatim>\<open>resp.json()\<close>
  (a \<^verbatim>\<open>RequestException\<close> since requests 2.27) are the subclasses of
  \<^verbatim>\<open>requests.RequestException\<close> the program can meet.
\<close>

fun is_http_error :: "error \<Rightarrow> bool" where
  "is_http_error (HTTPError s b) = True"
| "is_http_error e = False"

fun is_request_exception :: "error \<Rightarrow> bool" where
  "is_request_exception (HTTPError s b) = True"
| "is_request_exception (NetworkError m) = True"
| "is_request_exception JSONDecodeError = True"
| "is_request_exception e = False"

text \<open>Truth value of a value in a condition (\<^verbatim>\<open>if v\<close>, \<^verbatim>\<open>a or b\<close>, \<^verbatim>\<open>bool(v)\<close>).\<close>

fun truthy :: "json \<Rightarrow> bool" where
  "truthy JNull = False"
| "truthy (JBool b) = b"
| "truthy (JInt n) = (n \<noteq> 0)"
| "truthy (JStr s) = (s \<noteq> [])"
| "truthy (JList xs) = (xs \<noteq> [])"
| "truthy (JObj kvs) = (kvs \<noteq> [])"

text \<open>\<^verbatim>\<open>a or b\<close>: the first operand when it is truthy, the second otherwise.\<close>

definition py_or :: "json \<Rightarrow> json \<Rightarrow> json" where
  "py_or a b = (if truthy a then a else b)"

text \<open>
  Python's \<^verbatim>\<open>==\<close> on these values: \<^verbatim>\<open>True == 1\<close> and \<^verbatim>\<open>False == 0\<close>
  hold, lists are compared element by element and dicts regardless of the order of their
  keys. \<^term>\<open>canon\<close> maps a value to the representative of its equality class.
\<close>

primrec canon :: "json \<Rightarrow> json" where
  "canon JNull = JNull"
| "canon (JBool b) = JInt (if b then 1 else 0)"
| "canon (JInt n) = JInt n"
| "canon (JStr s) = JStr s"
| "canon (JList xs) = JList (map canon xs)"
| "canon (JObj kvs) = JObj (sort_key fst (map (map_prod id canon) kvs))"

definition py_eq :: "json \<Rightarrow> json \<Rightarrow> bool" where
  "py_eq a b = (canon a = canon b)"

text \<open>\<^verbatim>\<open>d.get(k)\<close> and \<^verbatim>\<open>d.get(k, default)\<close> on a dict.\<close>

definition dict_get :: "pydict \<Rightarrow> string \<Rightarrow> json" where
  "dict_get d k = (case map_of d k of None \<Rightarrow> JNull | Some v \<Rightarrow> v)"

definition dict_get_default :: "pydict \<Rightarrow> string \<Rightarrow> json \<Rightarrow> json" where
  "dict_get_default d k dflt = (case map_of d k of None \<Rightarrow> dflt | Some v \<Rightarrow> v)"

text \<open>\<^verbatim>\<open>k in d\<close>.\<close>

definition has_key :: "pydict \<Rightarrow> string \<Rightarrow> bool" where
  "has_key d k = (map_of d k \<noteq> None)"

text \<open>
  \<^verbatim>\<open>v[k]\<close> with a string key on any value: a dict without the key raises
  \<^verbatim>\<open>KeyError\<close>, and a value that is not a dict raises \<^verbatim>\<open>TypeError\<close>
  (a string or a list wants an integer index, the others are not subscriptable).
\<close>

fun subscript :: "json \<Rightarrow> string \<Rightarrow> error + json" where
  "subscript (JObj d) k = (case map_of d k of None \<Rightarrow> Inl (KeyError k) | Some v \<Rightarrow> Inr v)"
| "subscript v k = Inl TypeError"

section \<open>Config store\<close>

text \<open>
  \<^verbatim>\<open>save_config\<close> overwrites \<^verbatim>\<open>config.json\<close> with the serialised document.
  The file is modelled by the document it holds, \<^term>\<open>None\<close> while it does not exist.
\<close>

type_synonym config_file = "pydict option"

definition load_config :: "config_file \<Rightarrow> pydict" where
  "load_config file = (case file of Some d \<Rightarrow> d | None \<Rightarrow> [])"

definition save_config :: "pydict \<Rightarrow> config_file \<Rightarrow> config_file" where
  "save_config data file = Some data"

subsection \<open>\<^verbatim>\<open>add_authorized_user\<close>\<close>

text \<open>
  The loop of \<^verbatim>\<open>add_authorized_user\<close> over \<^verbatim>\<open>enumerate(users)\<close>: the first
  entry whose \<^verbatim>\<open>"id"\<close> equals the record's is overwritten and the function returns;
  when the loop ends without a match the record is appended. \<^verbatim>\<open>u["id"]\<close> is evaluated
  before \<^verbatim>\<open>user_record["id"]\<close>, and neither is evaluated on an empty list.
\<close>

fun upsert_loop :: "pydict \<Rightarrow> json list \<Rightarrow> error + json list" where
  "upsert_loop user_record [] = Inr [JObj user_record]"
| "upsert_loop user_record (u # us) =
     (case subscript u ''id'' of
        Inl e \<Rightarrow> Inl e
      | Inr uid \<Rightarrow>
         (case subscript (JObj user_record) ''id'' of
            Inl e \<Rightarrow> Inl e
          | Inr rid \<Rightarrow>
             if py_eq uid rid then Inr (JObj user_record # us)
             else (case upsert_loop user_record us of
                     Inl e \<Rightarrow> Inl e
                   | Inr us' \<Rightarrow> Inr (u # us'))))"

text \<open>
  \<^verbatim>\<open>users = config.get("authorized_users", [])\<close> may be any value. Iterating over
  \<^verbatim>\<open>None\<close>, a number or a boolean raises \<^verbatim>\<open>TypeError\<close>; a non-empty string or
  dict yields strings, on which \<^verbatim>\<open>u["id"]\<close> raises \<^verbatim>\<open>TypeError\<close>; an empty
  string or dict skips the loop and has no \<^verbatim>\<open>append\<close>. The configuration is
  written to only on the two successful paths.
\<close>

definition add_authorized_user :: "pydict \<Rightarrow> pydict \<Rightarrow> error + pydict" where
  "add_authorized_user config user_record =
     (case dict_get_default config ''authorized_users'' (JList []) of
        JList users \<Rightarrow>
          (case upsert_loop user_record users of
             Inl e \<Rightarrow> Inl e
           | Inr users' \<Rightarrow> Inr (AList.update ''authorized_users'' (JList users') config))
      | JStr s \<Rightarrow> if s = [] then Inl AttributeError else Inl TypeError
      | JObj d \<Rightarrow> if d = [] then Inl AttributeError else Inl TypeError
      | _ \<Rightarrow> Inl TypeError)"

subsection \<open>\<^verbatim>\<open>migrate_config\<close>\<close>

text \<open>
  \<^term>\<open>now\<close> is the value of \<^verbatim>\<open>datetime.now(timezone.utc).isoformat()\<close>. The
  function returns the configuration and the file after the call.
\<close>

definition migrate_config :: "string \<Rightarrow> pydict \<Rightarrow> config_file \<Rightarrow> pydict \<times> config_file" where
  "migrate_config now config file =
     (let old_user_id = dict_get config ''dm_user_id'' in
      if truthy old_user_id \<and> \<not> has_key config ''authorized_users'' then
        let config1 = AList.update ''authorized_users''
              (JList [JObj
                 [(''id'', old_user_id),
                  (''username'', dict_get_default config ''dm_username'' (JStr '''')),
                  (''global_name'', dict_get_default config ''dm_username'' (JStr '''')),
                  (''dm_channel_id'', dict_get_default config ''dm_channel_id'' (JStr '''')),
                  (''authorized_at'', JStr now)]]) config;
            config2 = AList.delete ''dm_user_id'' config1;
            config3 = AList.delete ''dm_channel_id'' config2;
            config4 = AList.delete ''dm_username'' config3
        in (config4, save_config config4 file)
      else (config, file))"

section \<open>API client\<close>

text \<open>
  An f-string is kept as the list of its parts, a literal piece of text or an
  interpolated value, so that no rendering of a value as text has to be guessed:
  \<^verbatim>\<open>f"Bot {token}"\<close> is \<open>[Lit ''Bot '', Val token]\<close>. \<open>Exc e\<close> is the text of an
  exception and \<open>UrlEncode ps\<close> the result of \<^verbatim>\<open>urlencode(ps)\<close>.
\<close>

datatype fpart = Lit string | Val json | Exc error | UrlEncode "(string \<times> json) list"

type_synonym fstring = "fpart list"

datatype payload = NoPayload | JsonPayload json | FormPayload "(string \<times> json) list"

record request =
  http_method :: string
  url :: fstring
  headers :: "(string \<times> fstring) list"
  payload :: payload
  timeout :: nat

text \<open>
  A \<^verbatim>\<open>requests.Response\<close>: the status, the raw body and what \<^verbatim>\<open>resp.json()\<close>
  decodes the body to, \<^term>\<open>None\<close> when the body is not JSON. The call of
  \<^verbatim>\<open>requests.request\<close> either raises a network-layer \<^verbatim>\<open>RequestException\<close> or
  returns a response.
\<close>

record 'a response =
  status_code :: int
  body_text :: string
  json_body :: "'a option"

datatype 'a reply = Failed string | Responded "'a response"

text \<open>
  The remote side is a parameter: it answers a request given the requests issued before.
\<close>

type_synonym 'a network = "request list \<Rightarrow> request \<Rightarrow> 'a reply"

text \<open>
  What a run of the script can change: the requests sent, the widgets rendered, the
  configuration file, the query parameters of the page and the wizard step kept in
  \<^verbatim>\<open>st.session_state\<close>. \<^term>\<open>clicked\<close> lists the buttons pressed in this run.
\<close>

datatype widget =
    Title fstring
  | Subheader fstring
  | Write fstring
  | Caption fstring
  | Markdown fstring
  | Success fstring
  | Info fstring
  | Error fstring
  | Divider
  | Balloons
  | Button string
  | LinkButton string fstring
  | ChatMessage string "widget list"

record world =
  calls :: "request list"
  screen :: "widget list"
  config_json :: config_file
  query_params :: "(string \<times> string) list"
  onboarding_step :: "string option"
  clicked :: "string list"

datatype outcome = Done | Stop | Rerun | Raised error

definition render :: "widget \<Rightarrow> world \<Rightarrow> world" where
  "render x w = w\<lparr>screen := screen w @ [x]\<rparr>"

definition DISCORD_API :: string where
  "DISCORD_API = ''https://discord.com/api/v10''"

definition DISCORD_OAUTH2_TOKEN_URL :: string where
  "DISCORD_OAUTH2_TOKEN_URL = ''https://discord.com/api/oauth2/token''"

definition send :: "'a network \<Rightarrow> request \<Rightarrow> world \<Rightarrow> 'a reply \<times> world" where
  "send net rq w = (net (calls w) rq, w\<lparr>calls := calls w @ [rq]\<rparr>)"

definition discord_request ::
  "'a network \<Rightarrow> string \<Rightarrow> fstring \<Rightarrow> string \<Rightarrow> payload \<Rightarrow> world \<Rightarrow> 'a reply \<times> world" where
  "discord_request net meth endpoint token kwargs w =
     send net \<lparr>http_method = meth, url = Lit DISCORD_API # endpoint,
               headers = [(''Authorization'', [Lit ''Bot '', Val (JStr token)])],
               payload = kwargs, timeout = 10\<rparr> w"

text \<open>
  \<^verbatim>\<open>Response.raise_for_status\<close> of the requests library raises \<^verbatim>\<open>HTTPError\<close> for
  a status from 400 to 599 and returns for every other status.
\<close>

definition raise_for_status :: "'a response \<Rightarrow> error + unit" where
  "raise_for_status resp =
     (if 400 \<le> status_code resp \<and> status_code resp < 600
      then Inl (HTTPError (status_code resp) (body_text resp)) else Inr ())"

text \<open>\<^verbatim>\<open>resp.json()\<close>: the decoded body, or the library's decoding error.\<close>

definition resp_json :: "'a response \<Rightarrow> error + 'a" where
  "resp_json resp = (case json_body resp of None \<Rightarrow> Inl JSONDecodeError | Some v \<Rightarrow> Inr v)"

text \<open>
  The functions that go on with \<^verbatim>\<open>resp.raise_for_status()\<close> and
  \<^verbatim>\<open>resp.json()\<close> share this tail.
\<close>

definition checked_json :: "'a reply \<Rightarrow> error + 'a" where
  "checked_json r =
     (case r of
        Failed m \<Rightarrow> Inl (NetworkError m)
      | Responded resp \<Rightarrow>
         (case raise_for_status resp of Inl e \<Rightarrow> Inl e | Inr u \<Rightarrow> resp_json resp))"

text \<open>
  A channel of the remote API: \<^verbatim>\<open>{id, name, type, position}\<close> with an integer type
  and an integer position, which may be missing (\<^verbatim>\<open>ch.get("position", 0)\<close>).
\<close>

record channel =
  ch_id :: string
  ch_name :: string
  ch_type :: int
  ch_position :: "int option"

definition position_key :: "channel \<Rightarrow> int" where
  "position_key ch = (case ch_position ch of None \<Rightarrow> 0 | Some p \<Rightarrow> p)"

text \<open>Python's \<^verbatim>\<open>sorted\<close> is stable, as \<^const>\<open>sort_key\<close> is.\<close>

definition get_guild_channels ::
  "channel list network \<Rightarrow> string \<Rightarrow> json \<Rightarrow> world \<Rightarrow> (error + channel list) \<times> world" where
  "get_guild_channels net token guild_id w =
     (let (r, w') = discord_request net ''GET''
                      [Lit ''/guilds/'', Val guild_id, Lit ''/channels''] token NoPayload w
      in (case checked_json r of
            Inl e \<Rightarrow> Inl e
          | Inr channels \<Rightarrow>
              Inr (sort_key position_key (filter (\<lambda>ch. ch_type ch = 0) channels)), w'))"

definition send_message ::
  "'a network \<Rightarrow> string \<Rightarrow> json \<Rightarrow> string \<Rightarrow> world \<Rightarrow> (error + 'a response) \<times> world" where
  "send_message net token channel_id content w =
     (let (r, w') = discord_request net ''POST''
                      [Lit ''/channels/'', Val channel_id, Lit ''/messages''] token
                      (JsonPayload (JObj [(''content'', JStr content)])) w
      in (case r of Failed m \<Rightarrow> Inl (NetworkError m) | Responded resp \<Rightarrow> Inr resp, w'))"

definition open_dm_channel ::
  "json network \<Rightarrow> string \<Rightarrow> json \<Rightarrow> world \<Rightarrow> (error + json) \<times> world" where
  "open_dm_channel net token user_id w =
     (let (r, w') = discord_request net ''POST'' [Lit ''/users/@me/channels''] token
                      (JsonPayload (JObj [(''recipient_id'', user_id)])) w
      in (checked_json r, w'))"

definition get_messages ::
  "json network \<Rightarrow> string \<Rightarrow> json \<Rightarrow> int \<Rightarrow> world \<Rightarrow> (error + json) \<times> world" where
  "get_messages net token channel_id limit w =
     (let (r, w') = discord_request net ''GET''
                      [Lit ''/channels/'', Val channel_id, Lit ''/messages?limit='', Val (JInt limit)]
                      token NoPayload w
      in (checked_json r, w'))"

definition exchange_code_for_token ::
  "json network \<Rightarrow> string \<Rightarrow> string \<Rightarrow> string \<Rightarrow> string \<Rightarrow> world \<Rightarrow> (error + json) \<times> world" where
  "exchange_code_for_token net code client_id client_secret redirect_uri w =
     (let (r, w') = send net
            \<lparr>http_method = ''POST'', url = [Lit DISCORD_OAUTH2_TOKEN_URL],
             headers = [(''Content-Type'', [Lit ''application/x-www-form-urlencoded''])],
             payload = FormPayload
               [(''grant_type'', JStr ''authorization_code''), (''code'', JStr code),
                (''redirect_uri'', JStr redirect_uri), (''client_id'', JStr client_id),
                (''client_secret'', JStr client_secret)],
             timeout = 10\<rparr> w
      in (checked_json r, w'))"

definition get_oauth_user :: "json network \<Rightarrow> json \<Rightarrow> world \<Rightarrow> (error + json) \<times> world" where
  "get_oauth_user net access_token w =
     (let (r, w') = send net
            \<lparr>http_method = ''GET'', url = [Lit DISCORD_API, Lit ''/users/@me''],
             headers = [(''Authorization'', [Lit ''Bearer '', Val access_token])],
             payload = NoPayload, timeout = 10\<rparr> w
      in (checked_json r, w'))"

section \<open>Message feed renderer\<close>

text \<open>
  \<^verbatim>\<open>datetime.fromisoformat(v).astimezone(tz=None)\<close> belongs to the standard library and
  to the time zone of the machine: it is the parameter \<open>local_time\<close> of the functions
  below. It returns the local time or raises: \<^verbatim>\<open>ValueError\<close> on text that is no ISO
  timestamp, \<^verbatim>\<open>TypeError\<close> on a value that is no string, and
  \<^verbatim>\<open>OverflowError\<close> where the local time leaves the range of \<^verbatim>\<open>datetime\<close>
  (\<^verbatim>\<open>0001-01-01T00:00:00+01:00\<close> on a machine in UTC).
\<close>

record datetime =
  year :: nat
  month :: nat
  day :: nat
  hour :: nat
  minute :: nat

text \<open>
  \<^verbatim>\<open>ts.strftime("%Y-%m-%d %H:%M")\<close> as the C library of Linux formats: the year in
  decimal without padding (\<^verbatim>\<open>999\<close> for the year 999), the other fields with two
  digits.
\<close>

definition digit :: "nat \<Rightarrow> char" where
  "digit n = ''0123456789'' ! (n mod 10)"

fun decimal :: "nat \<Rightarrow> string" where
  "decimal n = (if n < 10 then [digit n] else decimal (n div 10) @ [digit n])"

declare decimal.simps [simp del]

definition pad2 :: "nat \<Rightarrow> string" where
  "pad2 n = [digit (n div 10), digit n]"

definition strftime :: "datetime \<Rightarrow> string" where
  "strftime ts = decimal (year ts) @ ''-'' @ pad2 (month ts) @ ''-'' @ pad2 (day ts)
                   @ '' '' @ pad2 (hour ts) @ '':'' @ pad2 (minute ts)"

text \<open>
  The \<^verbatim>\<open>try\<close> block around the conversion, in \<^verbatim>\<open>display_messages\<close> and in the
  list of connected users: the formatted local time, the fallback text on
  \<^verbatim>\<open>ValueError\<close> and \<^verbatim>\<open>TypeError\<close>, and any other exception passed on.
\<close>

definition try_strftime :: "(json \<Rightarrow> error + datetime) \<Rightarrow> json \<Rightarrow> string \<Rightarrow> error + string" where
  "try_strftime local_time v fallback =
     (case local_time v of
        Inr ts \<Rightarrow> Inr (strftime ts)
      | Inl exc \<Rightarrow> if exc = ValueError \<or> exc = TypeError then Inr fallback else Inl exc)"

definition middle_dot :: string where
  "middle_dot = [CHR 0xC2, CHR 0xB7]"

definition em_dash :: string where
  "em_dash = [CHR 0xE2, CHR 0x80, CHR 0x94]"

text \<open>
  The body of the loop of \<^verbatim>\<open>display_messages\<close>. \<^verbatim>\<open>msg.get\<close> and
  \<^verbatim>\<open>author.get\<close> raise \<^verbatim>\<open>AttributeError\<close> on a value that is not a dict. The
  name is computed before the \<^verbatim>\<open>try\<close> block, and nothing of the message is
  rendered when the block lets an exception through.
\<close>

fun message_line :: "(json \<Rightarrow> error + datetime) \<Rightarrow> string \<Rightarrow> json \<Rightarrow> error + widget" where
  "message_line local_time bot_id (JObj msg) =
     (case dict_get_default msg ''author'' (JObj []) of
        JObj author \<Rightarrow>
          (let is_bot = py_eq (dict_get author ''id'') (JStr bot_id);
               role = (if is_bot then ''assistant'' else ''user'');
               username = py_or (dict_get author ''global_name'')
                                (dict_get_default author ''username'' (JStr ''Unknown''));
               timestamp_str = dict_get_default msg ''timestamp'' (JStr '''')
           in case try_strftime local_time timestamp_str '''' of
                Inl exc \<Rightarrow> Inl exc
              | Inr time_display \<Rightarrow>
                  Inr (ChatMessage role
                        [Caption [Lit ''**'', Val username, Lit (''** '' @ middle_dot @ '' ''),
                                  Val (JStr time_display)],
                         Markdown [Val (dict_get_default msg ''content'' (JStr ''''))]]))
      | _ \<Rightarrow> Inl AttributeError)"
| "message_line local_time bot_id msg = Inl AttributeError"

fun messages_loop ::
  "(json \<Rightarrow> error + datetime) \<Rightarrow> string \<Rightarrow> json list \<Rightarrow> world \<Rightarrow> outcome \<times> world" where
  "messages_loop local_time bot_id [] w = (Done, w)"
| "messages_loop local_time bot_id (msg # rest) w =
     (case message_line local_time bot_id msg of
        Inl e \<Rightarrow> (Raised e, w)
      | Inr line \<Rightarrow> messages_loop local_time bot_id rest (render line w))"

definition display_messages ::
  "(json \<Rightarrow> error + datetime) \<Rightarrow> json list \<Rightarrow> string \<Rightarrow> world \<Rightarrow> outcome \<times> world" where
  "display_messages local_time messages bot_id w =
     (if messages = [] then (Done, render (Caption [Lit ''No messages yet.'']) w)
      else messages_loop local_time bot_id (rev messages) w)"

section \<open>Send and report\<close>

text \<open>
  \<^verbatim>\<open>content.strip()\<close> removes the white space of Unicode at both ends, so it is empty
  exactly when stripping from the left leaves nothing. \<^term>\<open>space_len\<close> is the number
  of bytes of the white-space character at the head of a UTF-8 text, 0 when there is none:
  U+0009 to U+000D, U+001C to U+0020, U+0085, U+00A0, U+1680, U+2000 to U+200A, U+2028,
  U+2029, U+202F, U+205F and U+3000.
\<close>

definition space_len :: "nat list \<Rightarrow> nat" where
  "space_len bs =
     (case bs of
        [] \<Rightarrow> 0
      | a # r \<Rightarrow>
          if (9 \<le> a \<and> a \<le> 13) \<or> (28 \<le> a \<and> a \<le> 32) then 1
          else (case r of
                  [] \<Rightarrow> 0
                | b # r' \<Rightarrow>
                    if a = 0xC2 \<and> (b = 0x85 \<or> b = 0xA0) then 2
                    else (case r' of
                            [] \<Rightarrow> 0
                          | c # r'' \<Rightarrow>
                              if (a = 0xE1 \<and> b = 0x9A \<and> c = 0x80)
                                 \<or> (a = 0xE2 \<and> b = 0x80
                                      \<and> ((0x80 \<le> c \<and> c \<le> 0x8A) \<or> c = 0xA8 \<or> c = 0xA9 \<or> c = 0xAF))
                                 \<or> (a = 0xE2 \<and> b = 0x81 \<and> c = 0x9F)
                                 \<or> (a = 0xE3 \<and> b = 0x80 \<and> c = 0x80)
                              then 3 else 0)))"

function lstrip :: "nat list \<Rightarrow> nat list" where
  "lstrip bs = (if space_len bs = 0 then bs else lstrip (drop (space_len bs) bs))"
  by pat_completeness auto
termination
  by (relation "measure length") (auto simp: space_len_def split: list.splits if_splits)

definition blank :: "string \<Rightarrow> bool" where
  "blank content = (lstrip (map of_char content) = [])"

text \<open>
  \<^verbatim>\<open>send_and_report\<close>. Inside the \<^verbatim>\<open>try\<close>, \<^verbatim>\<open>resp.json()\<close> on a body that is
  not JSON raises a \<^verbatim>\<open>RequestException\<close>, which the handler reports; \<^verbatim>\<open>.get\<close> on a
  decoded body that is not a dict raises \<^verbatim>\<open>AttributeError\<close>, which nothing catches.
\<close>

definition send_and_report ::
  "json network \<Rightarrow> string \<Rightarrow> json \<Rightarrow> string \<Rightarrow> world \<Rightarrow> outcome \<times> world" where
  "send_and_report net token channel_id content w =
     (if blank content then (Done, render (Error [Lit ''Message cannot be empty.'']) w)
      else
        (case send_message net token channel_id content w of
           (Inl exc, w') \<Rightarrow> (Done, render (Error [Lit ''Network error: '', Exc exc]) w')
         | (Inr resp, w') \<Rightarrow>
             if status_code resp = 200 then (Done, render (Success [Lit ''Message sent!'']) w')
             else if status_code resp = 429 then
               (case resp_json resp of
                  Inl exc \<Rightarrow> (Done, render (Error [Lit ''Network error: '', Exc exc]) w')
                | Inr (JObj body) \<Rightarrow>
                    (Done, render (Error [Lit ''Rate limited. Retry after '',
                                          Val (dict_get_default body ''retry_after'' (JStr ''a few'')),
                                          Lit '' seconds.'']) w')
                | Inr other \<Rightarrow> (Raised AttributeError, w'))
             else if status_code resp = 403 then
               (Done, render (Error [Lit
                  ''Bot lacks permission to send messages here. Check bot roles in Discord.'']) w')
             else if status_code resp = 404 then
               (Done, render (Error [Lit (''Channel not found. It may have been deleted ''
                                          @ em_dash @ '' try reloading.'')]) w')
             else
               (Done, render (Error [Lit ''Discord API error ('', Val (JInt (status_code resp)),
                                     Lit ''): '', Val (JStr (body_text resp))]) w')))"

section \<open>OAuth2 helpers and onboarding\<close>

text \<open>The settings read from the environment when the script starts.\<close>

record env =
  BOT_TOKEN :: string
  CLIENT_ID :: string
  CLIENT_SECRET :: string
  REDIRECT_URI :: string

definition OAUTH2_AVAILABLE :: "env \<Rightarrow> bool" where
  "OAUTH2_AVAILABLE e = (CLIENT_SECRET e \<noteq> [] \<and> REDIRECT_URI e \<noteq> [])"

definition generate_auth_url :: "string \<Rightarrow> string \<Rightarrow> string \<Rightarrow> int option \<Rightarrow> fstring" where
  "generate_auth_url client_id redirect_uri scope permissions =
     [Lit ''https://discord.com/oauth2/authorize?'',
      UrlEncode ([(''client_id'', JStr client_id), (''redirect_uri'', JStr redirect_uri),
                  (''response_type'', JStr ''code''), (''scope'', JStr scope)]
                 @ (case permissions of None \<Rightarrow> [] | Some p \<Rightarrow> [(''permissions'', JInt p)]))]"

text \<open>
  \<^verbatim>\<open>[u.get("global_name") or u.get("username", "?") for u in authorized_users]\<close>
  of \<^verbatim>\<open>show_onboarding\<close>, for a value that passed \<^verbatim>\<open>if authorized_users\<close>: the
  elements of a string or of a dict are strings, which have no \<^verbatim>\<open>get\<close>, and a number
  cannot be iterated over.
\<close>

fun names_of_users :: "json list \<Rightarrow> error + json list" where
  "names_of_users [] = Inr []"
| "names_of_users (JObj u # us) =
     (case names_of_users us of
        Inl e \<Rightarrow> Inl e
      | Inr ns \<Rightarrow> Inr (py_or (dict_get u ''global_name'')
                             (dict_get_default u ''username'' (JStr ''?'')) # ns))"
| "names_of_users (u # us) = Inl AttributeError"

fun onboarding_names :: "json \<Rightarrow> error + json list" where
  "onboarding_names (JList us) = names_of_users us"
| "onboarding_names (JStr s) = Inl AttributeError"
| "onboarding_names (JObj d) = Inl AttributeError"
| "onboarding_names v = Inl TypeError"

text \<open>\<^verbatim>\<open>', '.join(names)\<close> raises \<^verbatim>\<open>TypeError\<close> unless every item is a string.\<close>

fun join :: "string \<Rightarrow> json list \<Rightarrow> error + string" where
  "join sep [] = Inr []"
| "join sep [JStr s] = Inr s"
| "join sep (JStr s # n # ns) =
     (case join sep (n # ns) of Inl e \<Rightarrow> Inl e | Inr t \<Rightarrow> Inr (s @ sep @ t))"
| "join sep (v # ns) = Inl TypeError"

text \<open>
  The link the status page offers to connect another account:
  with a server already linked only the identity is asked for, otherwise the bot is
  installed as well, with the permissions 68608.
\<close>

definition connect_button :: "env \<Rightarrow> pydict \<Rightarrow> widget" where
  "connect_button e config =
     (let has_guild = truthy (dict_get config ''guild_id'') in
      if has_guild
      then LinkButton ''Connect with Discord''
             (generate_auth_url (CLIENT_ID e) (REDIRECT_URI e) ''identify'' None)
      else LinkButton ''Add Bot & Connect''
             (generate_auth_url (CLIENT_ID e) (REDIRECT_URI e) ''bot identify'' (Some 68608)))"

text \<open>
  \<^verbatim>\<open>show_onboarding\<close>. The two step views \<^verbatim>\<open>_onboarding_dm\<close> and
  \<^verbatim>\<open>_onboarding_channel\<close> are parameters. \<^verbatim>\<open>st.rerun()\<close> ends the run at once.
  The placement of widgets in columns is not modelled.
\<close>

definition show_onboarding ::
  "env \<Rightarrow> (pydict \<Rightarrow> world \<Rightarrow> outcome \<times> world) \<Rightarrow> (pydict \<Rightarrow> world \<Rightarrow> outcome \<times> world)
     \<Rightarrow> pydict \<Rightarrow> world \<Rightarrow> outcome \<times> world" where
  "show_onboarding e onboarding_dm onboarding_channel config w =
     (let authorized_users = dict_get_default config ''authorized_users'' (JList []);
          channel_configured = truthy (dict_get config ''channel_id'')
      in
      if truthy authorized_users \<or> channel_configured then
        (let w1 = render (Title [Lit ''Gopf Intel'']) w;
             connected =
               (if truthy authorized_users then
                  (case onboarding_names authorized_users of
                     Inl exc \<Rightarrow> Inl exc
                   | Inr names \<Rightarrow>
                       (case join '', '' names of
                          Inl exc \<Rightarrow> Inl exc
                        | Inr joined \<Rightarrow>
                            Inr (render (Success [Lit ''Connected: **'', Val (JStr joined),
                                                  Lit ''**'']) w1)))
                else Inr w1)
         in case connected of
              Inl exc \<Rightarrow> (Raised exc, w1)
            | Inr w2 \<Rightarrow>
               (let w3 = (if channel_configured
                          then render (Success [Lit ''Channel: **#'',
                                 Val (dict_get_default config ''channel_name'' (JStr ''?'')),
                                 Lit ''**'']) w2
                          else w2);
                    w4 = render (Markdown [Lit ''[Open Admin Dashboard](?admin)'']) w3;
                    w5 = (if OAUTH2_AVAILABLE e
                          then render (connect_button e config)
                                 (render (Caption [Lit ''Connect another account:''])
                                    (render Divider w4))
                          else w4)
                in (Done, render (Caption [Lit ''[Admin Dashboard](?admin)''])
                            (render Divider w5))))
      else
        (let step = (case onboarding_step w of None \<Rightarrow> ''choose'' | Some s \<Rightarrow> s);
             w1 = render (Title [Lit ''Gopf Intel'']) (w\<lparr>onboarding_step := Some step\<rparr>);
             admin_link = (\<lambda>v. (Done, render (Caption [Lit ''[Admin Dashboard](?admin)''])
                                       (render Divider v)))
         in
         if step = ''choose'' then
           (let w2 = render (Button ''Direct Message'')
                       (render (Caption [Lit ''Private, personalized to you.''])
                          (render (Markdown [Lit ''**Direct Message** (Recommended)''])
                             (render (Write [Lit ''How would you like to receive your signals?''])
                                (render (Subheader [Lit ''Trading Signals on Discord'']) w1))))
            in
            if ''Direct Message'' \<in> set (clicked w2)
            then (Rerun, w2\<lparr>onboarding_step := Some ''dm''\<rparr>)
            else
              (let w3 = render (Button ''Channel'')
                          (render (Caption [Lit ''Shared with everyone in the channel.''])
                             (render (Markdown [Lit ''**Channel**'']) w2))
               in
               if ''Channel'' \<in> set (clicked w3)
               then (Rerun, w3\<lparr>onboarding_step := Some ''channel''\<rparr>)
               else admin_link w3))
         else if step = ''dm'' then
           (case onboarding_dm config w1 of
              (Done, w2) \<Rightarrow> admin_link w2
            | (other, w2) \<Rightarrow> (other, w2))
         else if step = ''channel'' then
           (case onboarding_channel config w1 of
              (Done, w2) \<Rightarrow> admin_link w2
            | (other, w2) \<Rightarrow> (other, w2))
         else admin_link w1))"

section \<open>OAuth2 callback handler\<close>

text \<open>
  The body of the \<^verbatim>\<open>try\<close> block of the handler. It returns the exception that leaves
  the block, or \<^term>\<open>Stop\<close> for the \<^verbatim>\<open>st.stop()\<close> that ends it, together with the
  configuration in memory. \<^term>\<open>now\<close> is
  \<^verbatim>\<open>datetime.now(timezone.utc).isoformat()\<close>.
\<close>

definition oauth_try ::
  "env \<Rightarrow> json network \<Rightarrow> string \<Rightarrow> string \<Rightarrow> string \<Rightarrow> pydict \<Rightarrow> world
     \<Rightarrow> (error + pydict) \<times> world" where
  "oauth_try e net now oauth_code oauth_guild_id config w =
     (case exchange_code_for_token net oauth_code (CLIENT_ID e) (CLIENT_SECRET e)
             (REDIRECT_URI e) w of
        (Inl exc, w1) \<Rightarrow> (Inl exc, w1)
      | (Inr token_data, w1) \<Rightarrow>
       (case subscript token_data ''access_token'' of
          Inl exc \<Rightarrow> (Inl exc, w1)
        | Inr access_token \<Rightarrow>
         (case get_oauth_user net access_token w1 of
            (Inl exc, w2) \<Rightarrow> (Inl exc, w2)
          | (Inr user_data, w2) \<Rightarrow>
           (case subscript user_data ''id'' of
              Inl exc \<Rightarrow> (Inl exc, w2)
            | Inr user_id \<Rightarrow>
             (case open_dm_channel net (BOT_TOKEN e) user_id w2 of
                (Inl exc, w3) \<Rightarrow> (Inl exc, w3)
              | (Inr dm_channel, w3) \<Rightarrow>
               (case user_data of
                  JObj ud \<Rightarrow>
                   (case subscript dm_channel ''id'' of
                      Inl exc \<Rightarrow> (Inl exc, w3)
                    | Inr dm_id \<Rightarrow>
                       (let user_record =
                              [(''id'', user_id),
                               (''username'', dict_get_default ud ''username'' (JStr '''')),
                               (''global_name'',
                                  py_or (dict_get ud ''global_name'')
                                        (dict_get_default ud ''username'' (JStr ''''))),
                               (''dm_channel_id'', dm_id),
                               (''authorized_at'', JStr now)]
                        in case add_authorized_user config user_record of
                             Inl exc \<Rightarrow> (Inl exc, w3)
                           | Inr config1 \<Rightarrow>
                              (let config2 = (if oauth_guild_id \<noteq> []
                                              then AList.update ''guild_id'' (JStr oauth_guild_id) config1
                                              else config1);
                                   w4 = w3\<lparr>config_json := save_config config2 (config_json w3),
                                           query_params := []\<rparr>;
                                   w5 = render (Caption [Lit ''[Admin Dashboard](?admin)''])
                                         (render Divider
                                           (render (Info [Lit
   ''You're all set! The bot can now send you direct messages.'', Lit [CHR 0x0A, CHR 0x0A],
   Lit ''You can close this page.''])
                                             (render (Success
                                                [Lit ''Connected: **'',
                                                 Val (dict_get user_record ''global_name''),
                                                 Lit ''** ('',
                                                 Val (dict_get user_record ''username''),
                                                 Lit '')''])
                                               (render (Title [Lit ''Gopf Intel'']) w4))))
                               in (Inr config2, w5))))
                | other \<Rightarrow> (Inl TypeError, w3)))))))"

text \<open>
  The handler: it runs only with OAuth2 configured and a \<^verbatim>\<open>code\<close> in the query
  parameters. \<^verbatim>\<open>except requests.HTTPError\<close> comes first,
  \<^verbatim>\<open>except requests.RequestException\<close> second; any other exception leaves the script.
  The result is how the run goes on, the configuration in memory and the new state.
\<close>

definition oauth_callback ::
  "env \<Rightarrow> json network \<Rightarrow> string \<Rightarrow> pydict \<Rightarrow> world \<Rightarrow> outcome \<times> pydict \<times> world" where
  "oauth_callback e net now config w =
     (case map_of (query_params w) ''code'' of
        None \<Rightarrow> (Done, config, w)
      | Some oauth_code \<Rightarrow>
          if \<not> OAUTH2_AVAILABLE e then (Done, config, w)
          else
            (let oauth_guild_id = (case map_of (query_params w) ''guild_id'' of
                                     None \<Rightarrow> '''' | Some g \<Rightarrow> g)
             in case oauth_try e net now oauth_code oauth_guild_id config w of
                  (Inr config', w') \<Rightarrow> (Stop, config', w')
                | (Inl (HTTPError status body), w') \<Rightarrow>
                    (Stop, config,
                     render (Error [Lit ''OAuth2 error: '', Val (JInt status),
                                    Lit ('' '' @ em_dash @ '' ''), Val (JStr body)])
                       (w'\<lparr>query_params := []\<rparr>))
                | (Inl exc, w') \<Rightarrow>
                    if is_request_exception exc
                    then (Stop, config,
                          render (Error [Lit ''Network error during OAuth2: '', Exc exc])
                            (w'\<lparr>query_params := []\<rparr>))
                    else (Raised exc, config, w')))"

section \<open>Admin dashboard: the list of connected users\<close>



section \<open>Notions used in the statements\<close>

text \<open>
  The key of a user record: its \<^verbatim>\<open>"id"\<close> up to Python's equality, \<^term>\<open>None\<close> for
  a value that is no record with an id. Two records have the same id when their keys are
  equal, and a list keeps the invariant when its keys are pairwise different.
\<close>

definition record_key :: "json \<Rightarrow> json option" where
  "record_key u = (case subscript u ''id'' of Inl e \<Rightarrow> None | Inr v \<Rightarrow> Some (canon v))"

definition has_id :: "json \<Rightarrow> bool" where
  "has_id u = (record_key u \<noteq> None)"

definition same_id :: "json \<Rightarrow> json \<Rightarrow> bool" where
  "same_id u rid = (record_key u = Some (canon rid))"

definition one_record_per_id :: "json list \<Rightarrow> bool" where
  "one_record_per_id us = distinct (map record_key us)"

definition legacy_fields :: "string list" where
  "legacy_fields = [''dm_user_id'', ''dm_channel_id'', ''dm_username'']"

text \<open>A remote side that answers every request with the same response.\<close>

definition answering :: "'a response \<Rightarrow> 'a network" where
  "answering resp = (\<lambda>history rq. Responded resp)"

definition fresh_world :: world where
  "fresh_world = \<lparr>calls = [], screen = [], config_json = None, query_params = [],
                   onboarding_step = None, clicked = []\<rparr>"

subsection \<open>Example data\<close>

definition ann :: json where
  "ann = JObj [(''id'', JStr ''7''), (''username'', JStr ''ann'')]"

definition bob :: json where
  "bob = JObj [(''id'', JStr ''8''), (''username'', JStr ''bob'')]"

definition ann_again :: pydict where
  "ann_again = [(''id'', JStr ''7''), (''username'', JStr ''anna''), (''dm_channel_id'', JStr ''70'')]"

definition two_users_config :: pydict where
  "two_users_config = [(''guild_id'', JStr ''1''), (''authorized_users'', JList [ann, bob])]"

definition legacy_config :: pydict where
  "legacy_config = [(''dm_user_id'', JStr ''7''), (''dm_channel_id'', JStr ''70''),
                    (''dm_username'', JStr ''ann''), (''guild_id'', JStr ''1'')]"

definition legacy_config_blank_id :: pydict where
  "legacy_config_blank_id = [(''dm_user_id'', JStr ''''), (''dm_channel_id'', JStr ''70''),
                             (''dm_username'', JStr ''ann'')]"

definition general :: channel where
  "general = \<lparr>ch_id = ''10'', ch_name = ''general'', ch_type = 0, ch_position = Some 1\<rparr>"

definition voice :: channel where
  "voice = \<lparr>ch_id = ''11'', ch_name = ''voice'', ch_type = 2, ch_position = Some 0\<rparr>"

definition rules :: channel where
  "rules = \<lparr>ch_id = ''12'', ch_name = ''rules'', ch_type = 0, ch_position = None\<rparr>"

definition news :: channel where
  "news = \<lparr>ch_id = ''13'', ch_name = ''news'', ch_type = 0, ch_position = Some 0\<rparr>"

definition channels_response :: "channel list response" where
  "channels_response = \<lparr>status_code = 200, body_text = ''[...]'',
                         json_body = Some [general, voice, rules, news]\<rparr>"

text \<open>A call raises an API error when it ends in \<^verbatim>\<open>requests.HTTPError\<close>.\<close>

fun raises_http_error :: "error + 'a \<Rightarrow> bool" where
  "raises_http_error (Inl e) = is_http_error e"
| "raises_http_error (Inr v) = False"

definition multiple_choices :: "json response" where
  "multiple_choices = \<lparr>status_code = 300, body_text = ''[]'', json_body = Some (JList [])\<rparr>"

definition not_modified :: "json response" where
  "not_modified = \<lparr>status_code = 304, body_text = '''', json_body = None\<rparr>"

definition not_found :: "json response" where
  "not_found = \<lparr>status_code = 404, body_text = ''{\"message\": \"Unknown Channel\"}'',
                 json_body = Some (JObj [(''message'', JStr ''Unknown Channel'')])\<rparr>"

definition not_found_channels :: "channel list response" where
  "not_found_channels = \<lparr>status_code = 404, body_text = ''{\"message\": \"Unknown Guild\"}'',
                          json_body = None\<rparr>"

text \<open>The request \<^verbatim>\<open>send_message\<close> issues, and the state after it was sent.\<close>

definition message_post :: "string \<Rightarrow> json \<Rightarrow> string \<Rightarrow> request" where
  "message_post token channel_id content =
     \<lparr>http_method = ''POST'',
      url = [Lit DISCORD_API, Lit ''/channels/'', Val channel_id, Lit ''/messages''],
      headers = [(''Authorization'', [Lit ''Bot '', Val (JStr token)])],
      payload = JsonPayload (JObj [(''content'', JStr content)]), timeout = 10\<rparr>"

definition sent :: "string \<Rightarrow> json \<Rightarrow> string \<Rightarrow> world \<Rightarrow> world" where
  "sent token channel_id content w =
     w\<lparr>calls := calls w @ [message_post token channel_id content]\<rparr>"

definition rate_limited :: "json response" where
  "rate_limited = \<lparr>status_code = 429, body_text = ''{\"retry_after\": 3}'',
                    json_body = Some (JObj [(''retry_after'', JInt 3)])\<rparr>"

definition rate_limited_html :: "json response" where
  "rate_limited_html = \<lparr>status_code = 429, body_text = ''<html>Too Many Requests</html>'',
                         json_body = None\<rparr>"

text \<open>
  A message the renderer can read is a dict whose \<^verbatim>\<open>author\<close>, when it has one, is a
  dict. \<^term>\<open>author_of\<close> is \<^verbatim>\<open>msg.get("author", {})\<close> and \<^term>\<open>field_of\<close> is
  \<^verbatim>\<open>msg.get(k, "")\<close> of such a message.
\<close>

fun well_formed_message :: "json \<Rightarrow> bool" where
  "well_formed_message (JObj msg) =
     (case dict_get_default msg ''author'' (JObj []) of JObj author \<Rightarrow> True | _ \<Rightarrow> False)"
| "well_formed_message v = False"

fun author_of :: "json \<Rightarrow> pydict" where
  "author_of (JObj msg) =
     (case dict_get_default msg ''author'' (JObj []) of JObj author \<Rightarrow> author | _ \<Rightarrow> [])"
| "author_of v = []"

fun field_of :: "json \<Rightarrow> string \<Rightarrow> json" where
  "field_of (JObj msg) k = dict_get_default msg k (JStr '''')"
| "field_of v k = JStr ''''"

text \<open>
  The display name in the words of the specification: the \<^verbatim>\<open>global_name\<close> when it
  is truthy, otherwise the \<^verbatim>\<open>username\<close> when the key is present, otherwise the
  fallback text.
\<close>

definition preferred_name :: "pydict \<Rightarrow> string \<Rightarrow> json" where
  "preferred_name d fallback =
     (if truthy (dict_get d ''global_name'') then dict_get d ''global_name''
      else (case map_of d ''username'' of Some v \<Rightarrow> v | None \<Rightarrow> JStr fallback))"

text \<open>Text of the shape \<^verbatim>\<open>YYYY-MM-DD HH:MM\<close>.\<close>

definition is_digit :: "char \<Rightarrow> bool" where
  "is_digit c = (c \<in> set ''0123456789'')"

definition ymd_hm :: "string \<Rightarrow> bool" where
  "ymd_hm s = (length s = 16 \<and> s ! 4 = CHR ''-'' \<and> s ! 7 = CHR ''-'' \<and> s ! 10 = CHR '' ''
               \<and> s ! 13 = CHR '':''
               \<and> list_all (\<lambda>i. is_digit (s ! i)) [0, 1, 2, 3, 5, 6, 8, 9, 11, 12, 14, 15])"

text \<open>
  A conversion the \<^verbatim>\<open>try\<close> block copes with: it returns, or raises one of the two
  exceptions that are caught. \<^term>\<open>the_time\<close> is the text the block then yields in
  \<^verbatim>\<open>display_messages\<close>.
\<close>

fun time_handled :: "error + datetime \<Rightarrow> bool" where
  "time_handled (Inr ts) = True"
| "time_handled (Inl exc) = (exc = ValueError \<or> exc = TypeError)"

fun the_time :: "error + datetime \<Rightarrow> string" where
  "the_time (Inr ts) = strftime ts"
| "the_time (Inl exc) = ''''"

definition the_line :: "(json \<Rightarrow> error + datetime) \<Rightarrow> string \<Rightarrow> json \<Rightarrow> widget" where
  "the_line local_time bot_id msg =
     ChatMessage (if py_eq (dict_get (author_of msg) ''id'') (JStr bot_id)
                  then ''assistant'' else ''user'')
       [Caption [Lit ''**'', Val (preferred_name (author_of msg) ''Unknown''),
                 Lit (''** '' @ middle_dot @ '' ''),
                 Val (JStr (the_time (local_time (field_of msg ''timestamp''))))],
        Markdown [Val (field_of msg ''content'')]]"

definition example_message :: json where
  "example_message = JObj [(''id'', JStr ''1''), (''author'', JObj [(''id'', JStr ''BOT'')]),
                           (''content'', JStr ''hi''),
                           (''timestamp'', JStr ''2024-01-01T00:00:00+00:00'')]"

definition broken_clock_message :: json where
  "broken_clock_message =
     JObj [(''id'', JStr ''2''),
           (''author'', JObj [(''id'', JStr ''7''), (''global_name'', JStr ''''),
                              (''username'', JStr ''ann'')]),
           (''content'', JStr ''hello''), (''timestamp'', JStr ''yesterday'')]"

definition early_message :: json where
  "early_message =
     JObj [(''id'', JStr ''3''),
           (''author'', JObj [(''id'', JStr ''7''), (''username'', JStr ''ann'')]),
           (''content'', JStr ''old''), (''timestamp'', JStr ''0999-06-01T12:00:00+00:00'')]"

definition overflow_message :: json where
  "overflow_message =
     JObj [(''id'', JStr ''4''),
           (''author'', JObj [(''id'', JStr ''7''), (''username'', JStr ''ann'')]),
           (''content'', JStr ''first''), (''timestamp'', JStr ''0001-01-01T00:00:00+01:00'')]"

text \<open>
  A machine in the time zone UTC, for the timestamps of these messages: the first two
  convert, the third lies before the first year in UTC, and other text is no timestamp.
\<close>

definition example_clock :: "json \<Rightarrow> error + datetime" where
  "example_clock v =
     (case v of
        JStr s \<Rightarrow>
          if s = ''2024-01-01T00:00:00+00:00''
          then Inr \<lparr>year = 2024, month = 1, day = 1, hour = 0, minute = 0\<rparr>
          else if s = ''0999-06-01T12:00:00+00:00''
          then Inr \<lparr>year = 999, month = 6, day = 1, hour = 12, minute = 0\<rparr>
          else if s = ''0001-01-01T00:00:00+01:00''
          then Inl OverflowError
          else Inl ValueError
      | _ \<Rightarrow> Inl TypeError)"

text \<open>
  A legacy configuration whose \<^verbatim>\<open>dm_username\<close> is null, and the configuration
  \<^verbatim>\<open>migrate_config\<close> makes of it.
\<close>

definition legacy_config_null_name :: pydict where
  "legacy_config_null_name = [(''dm_user_id'', JStr ''7''), (''dm_channel_id'', JStr ''70''),
                              (''dm_username'', JNull)]"

definition null_name_config :: pydict where
  "null_name_config =
     [(''authorized_users'',
       JList [JObj [(''id'', JStr ''7''), (''username'', JNull), (''global_name'', JNull),
                    (''dm_channel_id'', JStr ''70''),
                    (''authorized_at'', JStr ''2024-01-01T00:00:00+00:00'')]])]"

text \<open>
  User records the status page can name: \<^verbatim>\<open>authorized_users\<close> is a list of dicts
  whose display names are strings, or is falsy.
\<close>

fun is_str :: "json \<Rightarrow> bool" where
  "is_str (JStr s) = True"
| "is_str v = False"

fun named_record :: "json \<Rightarrow> bool" where
  "named_record (JObj u) = is_str (preferred_name u ''?'')"
| "named_record v = False"

definition named_users :: "pydict \<Rightarrow> bool" where
  "named_users config =
     (case dict_get_default config ''authorized_users'' (JList []) of
        JList us \<Rightarrow> list_all named_record us
      | v \<Rightarrow> \<not> truthy v)"

text \<open>
  The widgets a call added to the screen; the status summary is known by its link to
  the Admin Dashboard, the step selection by its heading and its first option, and a
  wizard widget is any heading or button.
\<close>

definition added :: "world \<Rightarrow> world \<Rightarrow> widget list" where
  "added w w' = drop (length (screen w)) (screen w')"

definition status_summary_view :: "widget list \<Rightarrow> bool" where
  "status_summary_view ws = (Markdown [Lit ''[Open Admin Dashboard](?admin)''] \<in> set ws)"

definition step_selection_view :: "widget list \<Rightarrow> bool" where
  "step_selection_view ws =
     (Subheader [Lit ''Trading Signals on Discord''] \<in> set ws
      \<and> Button ''Direct Message'' \<in> set ws)"

fun wizard_widget :: "widget \<Rightarrow> bool" where
  "wizard_widget (Subheader t) = True"
| "wizard_widget (Button l) = True"
| "wizard_widget x = False"

definition one_user_config :: pydict where
  "one_user_config = [(''authorized_users'',
      JList [JObj [(''id'', JStr ''7''), (''username'', JStr ''ann''),
                   (''global_name'', JStr '''')]])]"

definition no_oauth :: env where
  "no_oauth = \<lparr>BOT_TOKEN = ''token'', CLIENT_ID = ''99'', CLIENT_SECRET = '''',
                REDIRECT_URI = ''''\<rparr>"

definition no_step :: "pydict \<Rightarrow> world \<Rightarrow> outcome \<times> world" where
  "no_step config w = (Done, w)"

text \<open>Data of a callback that the token endpoint refuses.\<close>

definition unauthorized :: "json response" where
  "unauthorized = \<lparr>status_code = 401, body_text = ''{\"error\": \"invalid_client\"}'',
                    json_body = Some (JObj [(''error'', JStr ''invalid_client'')])\<rparr>"

definition oauth_env :: env where
  "oauth_env = \<lparr>BOT_TOKEN = ''token'', CLIENT_ID = ''99'', CLIENT_SECRET = ''secret'',
                 REDIRECT_URI = ''http://localhost:8501''\<rparr>"

definition callback_world :: world where
  "callback_world = \<lparr>calls = [], screen = [], config_json = Some [(''guild_id'', JStr ''1'')],
                      query_params = [(''code'', ''abc'')], onboarding_step = None,
                      clicked = []\<rparr>"

text \<open>A remote side that grants the code, names the user and opens the DM channel.\<close>

definition granting :: "json network" where
  "granting history rq =
     Responded
       (if length history = 0
        then \<lparr>status_code = 200, body_text = ''{\"access_token\": \"tok\"}'',
              json_body = Some (JObj [(''access_token'', JStr ''tok'')])\<rparr>
        else if length history = 1
        then \<lparr>status_code = 200, body_text = ''{\"id\": \"7\", \"username\": \"ann\"}'',
              json_body = Some (JObj [(''id'', JStr ''7''), (''username'', JStr ''ann'')])\<rparr>
        else \<lparr>status_code = 200, body_text = ''{\"id\": \"70\"}'',
              json_body = Some (JObj [(''id'', JStr ''70'')])\<rparr>)"

text \<open>A state that differs from another in the requests sent at most.\<close>

definition untouched :: "world \<Rightarrow> world \<Rightarrow> bool" where
  "untouched w w' = (w'\<lparr>calls := calls w\<rparr> = w)"

section \<open>Config store: proofs\<close>

lemma subscript_has_id:
  "has_id u \<Longrightarrow> \<exists>v. subscript u ''id'' = Inr v \<and> record_key u = Some (canon v)"
  by (auto simp: has_id_def record_key_def split: sum.splits)

lemma record_key_user: "map_of r ''id'' = Some rid \<Longrightarrow> record_key (JObj r) = Some (canon rid)"
  by (simp add: record_key_def)

lemma upsert_loop_miss:
  "list_all has_id us \<Longrightarrow> map_of r ''id'' = Some rid \<Longrightarrow> list_all (\<lambda>u. \<not> same_id u rid) us
   \<Longrightarrow> upsert_loop r us = Inr (us @ [JObj r])"
proof (induction us)
  case Nil
  then show ?case by simp
next
  case (Cons u us)
  from Cons.prems obtain v where v: "subscript u ''id'' = Inr v" "record_key u = Some (canon v)"
    using subscript_has_id by auto
  from Cons.prems have "\<not> py_eq v rid" using v by (simp add: same_id_def py_eq_def)
  moreover have "upsert_loop r us = Inr (us @ [JObj r])" using Cons by simp
  ultimately show ?case using v Cons.prems(2) by simp
qed

lemma upsert_loop_hit:
  "list_all has_id us \<Longrightarrow> map_of r ''id'' = Some rid \<Longrightarrow> i < length us \<Longrightarrow> same_id (us ! i) rid
   \<Longrightarrow> list_all (\<lambda>u. \<not> same_id u rid) (take i us)
   \<Longrightarrow> upsert_loop r us = Inr (us[i := JObj r])"
proof (induction us arbitrary: i)
  case Nil
  then show ?case by simp
next
  case (Cons u us)
  from Cons.prems obtain v where v: "subscript u ''id'' = Inr v" "record_key u = Some (canon v)"
    using subscript_has_id by auto
  show ?case
  proof (cases i)
    case 0
    with Cons.prems have "py_eq v rid" using v by (simp add: same_id_def py_eq_def)
    then show ?thesis using v Cons.prems(2) 0 by simp
  next
    case (Suc k)
    with Cons.prems have "\<not> py_eq v rid" using v by (simp add: same_id_def py_eq_def)
    moreover have "upsert_loop r us = Inr (us[k := JObj r])"
      using Cons.IH[of k] Cons.prems Suc by simp
    ultimately show ?thesis using v Cons.prems(2) Suc by simp
  qed
qed

lemma same_id_only_once:
  assumes "one_record_per_id us" "i < length us" "same_id (us ! i) rid"
    and "j < length us" "same_id (us ! j) rid"
  shows "j = i"
proof -
  from assms(1) have d: "distinct (map record_key us)" by (simp add: one_record_per_id_def)
  have "map record_key us ! j = map record_key us ! i"
    using assms by (simp add: same_id_def)
  moreover have "j < length (map record_key us)" "i < length (map record_key us)"
    using assms by simp_all
  ultimately show "j = i" using d nth_eq_iff_index_eq by blast
qed

lemma unique_first:
  assumes "one_record_per_id us" "i < length us" "same_id (us ! i) rid"
  shows "list_all (\<lambda>u. \<not> same_id u rid) (take i us)"
proof -
  have False if "j < i" "same_id (us ! j) rid" for j
    using same_id_only_once[OF assms, of j] that assms(2) by simp
  then show ?thesis
    using assms(2) by (auto simp: list_all_length)
qed

lemma unique_replace:
  assumes "one_record_per_id us" "i < length us" "same_id (us ! i) rid" "map_of r ''id'' = Some rid"
  shows "one_record_per_id (us[i := JObj r])"
proof -
  have "map record_key (us[i := JObj r]) = (map record_key us)[i := record_key (us ! i)]"
    using assms by (simp add: map_update record_key_user same_id_def)
  also have "\<dots> = map record_key us" using assms(2) by (simp add: list_update_same_conv)
  finally show ?thesis using assms(1) by (simp add: one_record_per_id_def)
qed

lemma unique_append:
  assumes "one_record_per_id us" "list_all (\<lambda>u. \<not> same_id u rid) us" "map_of r ''id'' = Some rid"
  shows "one_record_per_id (us @ [JObj r])"
  using assms by (auto simp: one_record_per_id_def record_key_user same_id_def list_all_iff)

text \<open>
  Claim C2. Let \<open>us\<close> be the list \<^verbatim>\<open>config.get("authorized_users", [])\<close>, every
  entry a record with an id and no two with the same id, and let the new record have the
  id \<open>rid\<close>. Then \<^verbatim>\<open>add_authorized_user\<close> returns the configuration with a new list
  \<open>us'\<close> under \<^verbatim>\<open>authorized_users\<close>, every other key as it was. If the entry at
  index \<open>i\<close> has the id \<open>rid\<close>, \<open>us'\<close> is \<open>us\<close> with that one entry overwritten:
  the length and all other entries, in their order, are those of \<open>us\<close>. If no entry has
  the id, \<open>us'\<close> is \<open>us\<close> with the record appended. In both cases no two entries of
  \<open>us'\<close> have the same id.
\<close>

theorem add_authorized_user_upsert:
  assumes users: "dict_get_default config ''authorized_users'' (JList []) = JList us"
    and ids: "list_all has_id us"
    and rid: "map_of user_record ''id'' = Some rid"
    and uniq: "one_record_per_id us"
  shows "\<exists>us'. add_authorized_user config user_record
                 = Inr (AList.update ''authorized_users'' (JList us') config)
           \<and> one_record_per_id us'
           \<and> (\<forall>i<length us. same_id (us ! i) rid \<longrightarrow> us' = us[i := JObj user_record])
           \<and> (list_all (\<lambda>u. \<not> same_id u rid) us \<longrightarrow> us' = us @ [JObj user_record])"
proof (cases "list_all (\<lambda>u. \<not> same_id u rid) us")
  case True
  then have "upsert_loop user_record us = Inr (us @ [JObj user_record])"
    using ids rid by (rule_tac upsert_loop_miss)
  moreover have "one_record_per_id (us @ [JObj user_record])"
    using uniq True rid by (rule unique_append)
  moreover have "\<forall>i<length us. \<not> same_id (us ! i) rid"
    using True by (simp add: list_all_length)
  ultimately show ?thesis using users True
    by (intro exI[of _ "us @ [JObj user_record]"]) (simp add: add_authorized_user_def)
next
  case False
  then obtain i where i: "i < length us" "same_id (us ! i) rid"
    by (auto simp: list_all_length)
  have first: "list_all (\<lambda>u. \<not> same_id u rid) (take i us)"
    using uniq i by (rule unique_first)
  have loop: "upsert_loop user_record us = Inr (us[i := JObj user_record])"
    using ids rid i first by (rule upsert_loop_hit)
  have inv: "one_record_per_id (us[i := JObj user_record])"
    using uniq i rid by (rule unique_replace)
  have only: "\<forall>j<length us. same_id (us ! j) rid \<longrightarrow> j = i"
    using same_id_only_once[OF uniq i] by blast
  show ?thesis using users loop inv only False
    by (intro exI[of _ "us[i := JObj user_record]"]) (auto simp: add_authorized_user_def)
qed

theorem add_authorized_user_upsert_witness:
  "add_authorized_user two_users_config ann_again
     = Inr [(''guild_id'', JStr ''1''), (''authorized_users'', JList [JObj ann_again, bob])]
   \<and> one_record_per_id [ann, bob] \<and> one_record_per_id [JObj ann_again, bob]"
proof -
  have h1: "dict_get_default two_users_config ''authorized_users'' (JList []) = JList [ann, bob]"
    by (simp add: two_users_config_def dict_get_default_def)
  have h2: "list_all has_id [ann, bob]"
    by (simp add: has_id_def record_key_def ann_def bob_def)
  have h3: "map_of ann_again ''id'' = Some (JStr ''7'')"
    by (simp add: ann_again_def)
  have h4: "one_record_per_id [ann, bob]"
    by (simp add: one_record_per_id_def record_key_def ann_def bob_def)
  from add_authorized_user_upsert[OF h1 h2 h3 h4] obtain us' where
    a: "add_authorized_user two_users_config ann_again
          = Inr (AList.update ''authorized_users'' (JList us') two_users_config)"
    and b: "one_record_per_id us'"
    and c: "\<forall>i<length [ann, bob]. same_id ([ann, bob] ! i) (JStr ''7'')
              \<longrightarrow> us' = [ann, bob][i := JObj ann_again]"
    by blast
  have "same_id ([ann, bob] ! 0) (JStr ''7'')"
    by (simp add: same_id_def record_key_def ann_def)
  with c have "us' = [JObj ann_again, bob]" by force
  with a b h4 show ?thesis by (simp add: two_users_config_def)
qed

text \<open>
  Claim C1, as amended. For every configuration whose \<^verbatim>\<open>dm_user_id\<close> is truthy (not
  missing, empty or null) and that has no \<^verbatim>\<open>authorized_users\<close> key,
  \<^verbatim>\<open>migrate_config\<close> returns and saves a configuration whose
  \<^verbatim>\<open>authorized_users\<close> is a list of exactly one record, the \<^verbatim>\<open>id\<close> of which is
  the legacy \<^verbatim>\<open>dm_user_id\<close>; the three legacy fields are gone and every other key
  keeps its value; and a second call, at any later time, returns the same configuration and
  leaves the file as it is.
\<close>

theorem migrate_config_legacy:
  assumes "truthy (dict_get config ''dm_user_id'')"
    and "\<not> has_key config ''authorized_users''"
  shows "\<exists>r config'. migrate_config now config file = (config', Some config')
           \<and> map_of config' ''authorized_users'' = Some (JList [JObj r])
           \<and> map_of r ''id'' = Some (dict_get config ''dm_user_id'')
           \<and> list_all (\<lambda>k. \<not> has_key config' k) legacy_fields
           \<and> (\<forall>k. k \<notin> set (''authorized_users'' # legacy_fields)
                   \<longrightarrow> map_of config' k = map_of config k)
           \<and> migrate_config later config' (Some config') = (config', Some config')"
  using assms
  by (simp add: migrate_config_def Let_def has_key_def save_config_def legacy_fields_def
      delete_conv' update_conv')

theorem migrate_config_legacy_witness:
  "truthy (dict_get legacy_config ''dm_user_id'') \<and> \<not> has_key legacy_config ''authorized_users''
   \<and> (\<exists>r config'. migrate_config ''2024-01-01T00:00:00+00:00'' legacy_config (Some legacy_config)
                     = (config', Some config')
         \<and> map_of config' ''authorized_users'' = Some (JList [JObj r])
         \<and> map_of r ''id'' = Some (JStr ''7'')
         \<and> migrate_config ''2024-01-02T00:00:00+00:00'' config' (Some config')
             = (config', Some config'))"
proof -
  have h1: "truthy (dict_get legacy_config ''dm_user_id'')"
    by (simp add: legacy_config_def dict_get_def)
  have h2: "\<not> has_key legacy_config ''authorized_users''"
    by (simp add: legacy_config_def has_key_def)
  have v: "dict_get legacy_config ''dm_user_id'' = JStr ''7''"
    by (simp add: legacy_config_def dict_get_def)
  from migrate_config_legacy[OF h1 h2, of "''2024-01-01T00:00:00+00:00''" "Some legacy_config"
      "''2024-01-02T00:00:00+00:00''"]
  show ?thesis using h1 h2 unfolding v by blast
qed

text \<open>
  Claim C1 as stated fails where the legacy fields are present with an empty
  \<^verbatim>\<open>dm_user_id\<close>: the guard \<^verbatim>\<open>if old_user_id and ...\<close> is false, nothing is
  migrated and the result has no \<^verbatim>\<open>authorized_users\<close>.
\<close>

theorem migrate_config_blank_id_counterexample:
  "list_all (has_key legacy_config_blank_id) legacy_fields
   \<and> \<not> has_key legacy_config_blank_id ''authorized_users''
   \<and> migrate_config ''2024-01-01T00:00:00+00:00'' legacy_config_blank_id
         (Some legacy_config_blank_id)
       = (legacy_config_blank_id, Some legacy_config_blank_id)
   \<and> \<not> has_key (fst (migrate_config ''2024-01-01T00:00:00+00:00'' legacy_config_blank_id
                        (Some legacy_config_blank_id))) ''authorized_users''"
  by (simp add: migrate_config_def Let_def has_key_def legacy_fields_def dict_get_def
      legacy_config_blank_id_def)

section \<open>API client: proofs\<close>

lemma get_guild_channels_ok:
  assumes "\<forall>rq. net (calls w) rq = Responded resp"
    and "status_code resp < 400 \<or> 600 \<le> status_code resp"
    and "json_body resp = Some channels"
  shows "fst (get_guild_channels net token guild_id w)
           = Inr (sort_key position_key (filter (\<lambda>ch. ch_type ch = 0) channels))"
  using assms
  by (auto simp: get_guild_channels_def discord_request_def send_def checked_json_def
      raise_for_status_def resp_json_def)

lemma get_guild_channels_example:
  "fst (get_guild_channels (answering channels_response) ''token'' (JStr ''1'') fresh_world)
     = Inr [rules, news, general]"
  by (simp add: get_guild_channels_def discord_request_def send_def checked_json_def
      raise_for_status_def resp_json_def answering_def channels_response_def position_key_def
      general_def voice_def rules_def news_def)

text \<open>
  Claim C5. When the remote API answers with a channel list, \<^verbatim>\<open>get_guild_channels\<close>
  returns a list that holds exactly the entries of type 0, each as often as the answer
  does, in ascending order of position; and for every position \<open>k\<close> the entries placed
  at \<open>k\<close> come in the order they had in the answer (the sort is stable).
\<close>

theorem get_guild_channels_filter_sort:
  assumes "\<forall>rq. net (calls w) rq = Responded resp"
    and "status_code resp < 400 \<or> 600 \<le> status_code resp"
    and "json_body resp = Some channels"
  shows "\<exists>result. fst (get_guild_channels net token guild_id w) = Inr result
           \<and> mset result = mset (filter (\<lambda>ch. ch_type ch = 0) channels)
           \<and> sorted (map position_key result)
           \<and> (\<forall>k. filter (\<lambda>ch. position_key ch = k) result
                   = filter (\<lambda>ch. position_key ch = k) (filter (\<lambda>ch. ch_type ch = 0) channels))"
  using get_guild_channels_ok[of net w resp channels token guild_id] assms
  by (simp add: sort_key_stable)

theorem get_guild_channels_filter_sort_witness:
  "fst (get_guild_channels (answering channels_response) ''token'' (JStr ''1'') fresh_world)
     = Inr [rules, news, general]
   \<and> mset [rules, news, general] = mset (filter (\<lambda>ch. ch_type ch = 0) [general, voice, rules, news])
   \<and> sorted (map position_key [rules, news, general])
   \<and> filter (\<lambda>ch. position_key ch = 0) [rules, news, general]
       = filter (\<lambda>ch. position_key ch = 0) (filter (\<lambda>ch. ch_type ch = 0) [general, voice, rules, news])"
proof -
  have h1: "\<forall>rq. answering channels_response (calls fresh_world) rq = Responded channels_response"
    by (simp add: answering_def)
  have h2: "status_code channels_response < 400 \<or> 600 \<le> status_code channels_response"
    by (simp add: channels_response_def)
  have h3: "json_body channels_response = Some [general, voice, rules, news]"
    by (simp add: channels_response_def)
  from get_guild_channels_filter_sort[of "answering channels_response" fresh_world channels_response
      "[general, voice, rules, news]" "''token''" "JStr ''1''"] h1 h2 h3
  show ?thesis using get_guild_channels_example by auto
qed

text \<open>
  Claim C9. A channel without a \<^verbatim>\<open>position\<close> is sorted with the key 0, and the call
  returns a list for every channel list of the answer: in the result a channel without a
  position stands before every channel with a positive position, and the channels
  without a position or at position 0 keep the order they had in the answer.
\<close>

theorem get_guild_channels_missing_position:
  assumes "\<forall>rq. net (calls w) rq = Responded resp"
    and "status_code resp < 400 \<or> 600 \<le> status_code resp"
    and "json_body resp = Some channels"
  shows "\<exists>result. fst (get_guild_channels net token guild_id w) = Inr result
           \<and> (\<forall>ch. ch_position ch = None \<longrightarrow> position_key ch = 0)
           \<and> (\<forall>i j. i < length result \<and> j < length result
                    \<and> ch_position (result ! i) = None
                    \<and> (\<exists>p. ch_position (result ! j) = Some p \<and> 0 < p) \<longrightarrow> i < j)
           \<and> filter (\<lambda>ch. ch_position ch = None \<or> ch_position ch = Some 0) result
               = filter (\<lambda>ch. ch_position ch = None \<or> ch_position ch = Some 0)
                   (filter (\<lambda>ch. ch_type ch = 0) channels)"
proof -
  let ?res = "sort_key position_key (filter (\<lambda>ch. ch_type ch = 0) channels)"
  have r: "fst (get_guild_channels net token guild_id w) = Inr ?res"
    using get_guild_channels_ok[of net w resp channels token guild_id] assms by simp
  have s: "sorted (map position_key ?res)" by simp
  have order: "i < j" if "i < length ?res" "j < length ?res" "ch_position (?res ! i) = None"
    "ch_position (?res ! j) = Some p" "0 < p" for i j p
  proof (rule ccontr)
    assume "\<not> i < j"
    then have "j \<le> i" by simp
    with s that(1) have "map position_key ?res ! j \<le> map position_key ?res ! i"
      by (intro sorted_nth_mono) simp_all
    then have "position_key (?res ! j) \<le> position_key (?res ! i)"
      using that(1,2) by simp
    with that(3,4,5) show False by (simp add: position_key_def)
  qed
  have z: "(\<lambda>ch. ch_position ch = None \<or> ch_position ch = Some 0) = (\<lambda>ch. position_key ch = 0)"
    by (auto simp: position_key_def fun_eq_iff split: option.splits)
  have k: "\<forall>ch. ch_position ch = None \<longrightarrow> position_key ch = 0"
    by (simp add: position_key_def)
  have "filter (\<lambda>ch. position_key ch = 0) ?res
          = filter (\<lambda>ch. position_key ch = 0) (filter (\<lambda>ch. ch_type ch = 0) channels)"
    by (rule sort_key_stable)
  with r order k show ?thesis unfolding z by blast
qed

theorem get_guild_channels_missing_position_witness:
  "fst (get_guild_channels (answering channels_response) ''token'' (JStr ''1'') fresh_world)
     = Inr [rules, news, general]
   \<and> ch_position rules = None \<and> ch_position news = Some 0 \<and> ch_position general = Some 1
   \<and> filter (\<lambda>ch. ch_position ch = None \<or> ch_position ch = Some 0) [rules, news, general]
       = filter (\<lambda>ch. ch_position ch = None \<or> ch_position ch = Some 0)
           (filter (\<lambda>ch. ch_type ch = 0) [general, voice, rules, news])"
proof -
  have h1: "\<forall>rq. answering channels_response (calls fresh_world) rq = Responded channels_response"
    by (simp add: answering_def)
  have h2: "status_code channels_response < 400 \<or> 600 \<le> status_code channels_response"
    by (simp add: channels_response_def)
  have h3: "json_body channels_response = Some [general, voice, rules, news]"
    by (simp add: channels_response_def)
  have p: "ch_position rules = None \<and> ch_position news = Some 0 \<and> ch_position general = Some 1"
    by (simp add: rules_def news_def general_def)
  from get_guild_channels_missing_position[of "answering channels_response" fresh_world channels_response
      "[general, voice, rules, news]" "''token''" "JStr ''1''"] h1 h2 h3
  show ?thesis using get_guild_channels_example p by auto
qed

lemma send_message_result:
  "send_message net token channel_id content w
     = (case net (calls w) (message_post token channel_id content) of
          Failed m \<Rightarrow> Inl (NetworkError m)
        | Responded resp \<Rightarrow> Inr resp,
        sent token channel_id content w)"
  by (simp add: send_message_def discord_request_def send_def message_post_def sent_def)

lemma checked_json_error:
  "400 \<le> status_code resp \<Longrightarrow> status_code resp < 600
   \<Longrightarrow> checked_json (Responded resp) = Inl (HTTPError (status_code resp) (body_text resp))"
  by (simp add: checked_json_def raise_for_status_def)

lemma checked_json_other:
  "\<not> (400 \<le> status_code resp \<and> status_code resp < 600)
   \<Longrightarrow> \<not> raises_http_error (checked_json (Responded resp))"
  by (auto simp: checked_json_def raise_for_status_def resp_json_def split: option.splits)

text \<open>
  Claim C8, as amended. \<^verbatim>\<open>send_message\<close> returns the response for every status and
  never raises on one, whereas \<^verbatim>\<open>get_guild_channels\<close>, \<^verbatim>\<open>open_dm_channel\<close>
  and \<^verbatim>\<open>get_messages\<close> raise an API error, carrying the status and the body, on
  every response with a status from 400 to 599, and on no response with another status.
\<close>

theorem raise_on_error_convention:
  assumes "\<forall>rq. net (calls w) rq = Responded resp"
    and "\<forall>rq. channels_net (calls w) rq = Responded channels_resp"
  shows "fst (send_message net token channel_id content w) = Inr resp
         \<and> (400 \<le> status_code resp \<and> status_code resp < 600 \<longrightarrow>
              fst (open_dm_channel net token user_id w)
                = Inl (HTTPError (status_code resp) (body_text resp))
              \<and> fst (get_messages net token channel_id limit w)
                  = Inl (HTTPError (status_code resp) (body_text resp)))
         \<and> (400 \<le> status_code channels_resp \<and> status_code channels_resp < 600 \<longrightarrow>
              fst (get_guild_channels channels_net token guild_id w)
                = Inl (HTTPError (status_code channels_resp) (body_text channels_resp)))
         \<and> (\<not> (400 \<le> status_code resp \<and> status_code resp < 600) \<longrightarrow>
              \<not> raises_http_error (fst (open_dm_channel net token user_id w))
              \<and> \<not> raises_http_error (fst (get_messages net token channel_id limit w)))
         \<and> (\<not> (400 \<le> status_code channels_resp \<and> status_code channels_resp < 600) \<longrightarrow>
              \<not> raises_http_error (fst (get_guild_channels channels_net token guild_id w)))"
proof -
  have a: "fst (send_message net token channel_id content w) = Inr resp"
    using assms(1) by (simp add: send_message_result)
  have b: "fst (open_dm_channel net token user_id w) = checked_json (Responded resp)"
    using assms(1) by (simp add: open_dm_channel_def discord_request_def send_def)
  have c: "fst (get_messages net token channel_id limit w) = checked_json (Responded resp)"
    using assms(1) by (simp add: get_messages_def discord_request_def send_def)
  have d: "fst (get_guild_channels channels_net token guild_id w)
             = (case checked_json (Responded channels_resp) of
                  Inl e \<Rightarrow> Inl e
                | Inr channels \<Rightarrow>
                    Inr (sort_key position_key (filter (\<lambda>ch. ch_type ch = 0) channels)))"
    using assms(2) by (simp add: get_guild_channels_def discord_request_def send_def)
  have e: "\<not> raises_http_error (fst (get_guild_channels channels_net token guild_id w))"
    if "\<not> (400 \<le> status_code channels_resp \<and> status_code channels_resp < 600)"
    using checked_json_other[OF that] unfolding d
    by (cases "checked_json (Responded channels_resp)") simp_all
  have f: "\<not> raises_http_error (checked_json (Responded resp))"
    if "\<not> (400 \<le> status_code resp \<and> status_code resp < 600)"
    using checked_json_other[OF that] .
  have g: "checked_json (Responded resp) = Inl (HTTPError (status_code resp) (body_text resp))"
    if "400 \<le> status_code resp \<and> status_code resp < 600"
    using that by (simp add: checked_json_error)
  have h: "fst (get_guild_channels channels_net token guild_id w)
             = Inl (HTTPError (status_code channels_resp) (body_text channels_resp))"
    if "400 \<le> status_code channels_resp \<and> status_code channels_resp < 600"
    using that unfolding d by (simp add: checked_json_error)
  show ?thesis
    using a e f g h unfolding b c by blast
qed

theorem raise_on_error_convention_witness:
  "fst (send_message (answering not_found) ''token'' (JStr ''70'') ''hello'' fresh_world)
     = Inr not_found
   \<and> fst (open_dm_channel (answering not_found) ''token'' (JStr ''7'') fresh_world)
       = Inl (HTTPError 404 (body_text not_found))
   \<and> fst (get_messages (answering not_found) ''token'' (JStr ''70'') 25 fresh_world)
       = Inl (HTTPError 404 (body_text not_found))
   \<and> fst (get_guild_channels (answering not_found_channels) ''token'' (JStr ''1'') fresh_world)
       = Inl (HTTPError 404 (body_text not_found_channels))"
proof -
  have h1: "\<forall>rq. answering not_found (calls fresh_world) rq = Responded not_found"
    by (simp add: answering_def)
  have h2: "\<forall>rq. answering not_found_channels (calls fresh_world) rq = Responded not_found_channels"
    by (simp add: answering_def)
  have s: "status_code not_found = 404" "status_code not_found_channels = 404"
    by (simp_all add: not_found_def not_found_channels_def)
  from raise_on_error_convention[of "answering not_found" fresh_world not_found
      "answering not_found_channels" not_found_channels "''token''" "JStr ''70''" "''hello''"
      "JStr ''7''" 25 "JStr ''1''"] h1 h2
  show ?thesis by (simp add: s)
qed

text \<open>
  Claim C8 as stated fails on a response that is neither a success nor a 4xx or 5xx
  error, since \<^verbatim>\<open>raise_for_status\<close> returns on it: on the status 300 with a JSON
  body \<^verbatim>\<open>get_messages\<close> hands the decoded body back, and on the status 304 with
  an empty body what it raises is the decoding error of \<^verbatim>\<open>resp.json()\<close>, which is
  no API error.
\<close>

theorem raise_on_error_counterexample:
  "status_code multiple_choices = 300
   \<and> fst (get_messages (answering multiple_choices) ''token'' (JStr ''70'') 25 fresh_world)
       = Inr (JList [])
   \<and> status_code not_modified = 304
   \<and> fst (get_messages (answering not_modified) ''token'' (JStr ''70'') 25 fresh_world)
       = Inl JSONDecodeError
   \<and> \<not> is_http_error JSONDecodeError"
  by (simp add: get_messages_def discord_request_def send_def checked_json_def
      raise_for_status_def resp_json_def answering_def not_modified_def multiple_choices_def)

section \<open>Send and report: proofs\<close>

text \<open>
  What \<^verbatim>\<open>send_and_report\<close> does on the other inputs. On a text that is empty or
  all white space it reports the empty message and sends nothing. On any other text
  it sends exactly one request, that of \<^verbatim>\<open>send_message\<close>, whatever comes back, and
  reports: a network-layer failure as a network error; the status 200 as a success; the
  status 429, when the body decodes to a JSON object, as a rate limit with the
  \<^verbatim>\<open>retry_after\<close> of the body (\<^verbatim>\<open>a few\<close> when the body has none); the status 403
  as a lack of permission; the status 404 as a channel not found; and every other status
  with the number of the status and the raw body.
\<close>

theorem send_and_report_outcomes:
  "(blank content \<longrightarrow>
      send_and_report net token channel_id content w
        = (Done, render (Error [Lit ''Message cannot be empty.'']) w))
   \<and> (\<not> blank content \<longrightarrow>
        calls (snd (send_and_report net token channel_id content w))
          = calls w @ [message_post token channel_id content]
        \<and> (\<forall>m. net (calls w) (message_post token channel_id content) = Failed m \<longrightarrow>
              send_and_report net token channel_id content w
                = (Done, render (Error [Lit ''Network error: '', Exc (NetworkError m)])
                           (sent token channel_id content w)))
        \<and> (\<forall>resp. net (calls w) (message_post token channel_id content) = Responded resp \<longrightarrow>
              (status_code resp = 200 \<longrightarrow>
                 send_and_report net token channel_id content w
                   = (Done, render (Success [Lit ''Message sent!''])
                              (sent token channel_id content w)))
              \<and> (status_code resp = 429 \<longrightarrow>
                   (\<forall>body. json_body resp = Some (JObj body) \<longrightarrow>
                      send_and_report net token channel_id content w
                        = (Done, render (Error [Lit ''Rate limited. Retry after '',
                                   Val (dict_get_default body ''retry_after'' (JStr ''a few'')),
                                   Lit '' seconds.''])
                                   (sent token channel_id content w))))
              \<and> (status_code resp = 403 \<longrightarrow>
                   send_and_report net token channel_id content w
                     = (Done, render (Error [Lit
                          ''Bot lacks permission to send messages here. Check bot roles in Discord.''])
                                (sent token channel_id content w)))
              \<and> (status_code resp = 404 \<longrightarrow>
                   send_and_report net token channel_id content w
                     = (Done, render (Error [Lit (''Channel not found. It may have been deleted ''
                                                  @ em_dash @ '' try reloading.'')])
                                (sent token channel_id content w)))
              \<and> (status_code resp \<notin> {200, 429, 403, 404} \<longrightarrow>
                   send_and_report net token channel_id content w
                     = (Done, render (Error [Lit ''Discord API error ('',
                                             Val (JInt (status_code resp)), Lit ''): '',
                                             Val (JStr (body_text resp))])
                                (sent token channel_id content w)))))"
proof (cases "blank content")
  case True
  then show ?thesis by (simp add: send_and_report_def)
next
  case False
  have c: "calls (snd (send_and_report net token channel_id content w))
          = calls w @ [message_post token channel_id content]"
    using False
    by (auto simp: send_and_report_def send_message_result sent_def render_def resp_json_def
        split: reply.splits option.splits json.splits sum.splits)
  show ?thesis
    using False c
    by (auto simp: send_and_report_def send_message_result resp_json_def)
qed

theorem send_and_report_outcomes_witness:
  "blank '''' \<and> blank [CHR '' '', CHR 0x0A, CHR 0xC2, CHR 0xA0, CHR 0x09]
   \<and> send_and_report (answering rate_limited) ''token'' (JStr ''70'')
        [CHR '' '', CHR 0x0A, CHR 0xC2, CHR 0xA0, CHR 0x09] fresh_world
       = (Done, render (Error [Lit ''Message cannot be empty.'']) fresh_world)
   \<and> \<not> blank ''hello''
   \<and> send_and_report (answering rate_limited) ''token'' (JStr ''70'') ''hello'' fresh_world
       = (Done, render (Error [Lit ''Rate limited. Retry after '', Val (JInt 3),
                               Lit '' seconds.''])
                  (sent ''token'' (JStr ''70'') ''hello'' fresh_world))
   \<and> calls (snd (send_and_report (answering rate_limited) ''token'' (JStr ''70'') ''hello''
                    fresh_world))
       = [message_post ''token'' (JStr ''70'') ''hello'']"
proof -
  have b1: "blank ''''" by (simp add: blank_def space_len_def)
  have b2: "blank [CHR '' '', CHR 0x0A, CHR 0xC2, CHR 0xA0, CHR 0x09]"
    by (simp add: blank_def space_len_def)
  have b3: "\<not> blank ''hello''" by (simp add: blank_def space_len_def)
  have n: "answering rate_limited (calls fresh_world) (message_post ''token'' (JStr ''70'') ''hello'')
             = Responded rate_limited"
    by (simp add: answering_def)
  have s: "status_code rate_limited = 429"
    "json_body rate_limited = Some (JObj [(''retry_after'', JInt 3)])"
    by (simp_all add: rate_limited_def)
  have d: "dict_get_default [(''retry_after'', JInt 3)] ''retry_after'' (JStr ''a few'') = JInt 3"
    by (simp add: dict_get_default_def)
  have e: "calls fresh_world = []" by (simp add: fresh_world_def)
  from send_and_report_outcomes[of "[CHR '' '', CHR 0x0A, CHR 0xC2, CHR 0xA0, CHR 0x09]"
      "answering rate_limited" "''token''" "JStr ''70''" fresh_world] b2
  have first: "send_and_report (answering rate_limited) ''token'' (JStr ''70'')
        [CHR '' '', CHR 0x0A, CHR 0xC2, CHR 0xA0, CHR 0x09] fresh_world
       = (Done, render (Error [Lit ''Message cannot be empty.'']) fresh_world)"
    by blast
  from send_and_report_outcomes[of "''hello''" "answering rate_limited" "''token''" "JStr ''70''"
      fresh_world] b3 n s
  have second: "send_and_report (answering rate_limited) ''token'' (JStr ''70'') ''hello'' fresh_world
       = (Done, render (Error [Lit ''Rate limited. Retry after '',
                  Val (dict_get_default [(''retry_after'', JInt 3)] ''retry_after'' (JStr ''a few'')),
                  Lit '' seconds.''])
                  (sent ''token'' (JStr ''70'') ''hello'' fresh_world))"
    and third: "calls (snd (send_and_report (answering rate_limited) ''token'' (JStr ''70'')
                  ''hello'' fresh_world))
       = calls fresh_world @ [message_post ''token'' (JStr ''70'') ''hello'']"
    by blast+
  show ?thesis using b1 b2 b3 first second third unfolding d e by simp
qed

text \<open>
  Claim C3 at a failing input. A response with the status 429 whose body is not JSON,
  such as the HTML page of a proxy: the branch for 429 means to report the rate limit,
  with \<^verbatim>\<open>a few\<close> for a missing \<^verbatim>\<open>retry_after\<close>, but \<^verbatim>\<open>resp.json()\<close>
  raises inside the \<^verbatim>\<open>try\<close> and the notice shown is the network error.
\<close>

theorem send_and_report_rate_limit_not_json:
  "\<not> blank ''hello'' \<and> status_code rate_limited_html = 429
   \<and> send_and_report (answering rate_limited_html) ''token'' (JStr ''70'') ''hello'' fresh_world
       = (Done, render (Error [Lit ''Network error: '', Exc JSONDecodeError])
                  (sent ''token'' (JStr ''70'') ''hello'' fresh_world))"
  by (simp add: send_and_report_def send_message_result resp_json_def answering_def
      rate_limited_html_def blank_def space_len_def)

section \<open>Message feed renderer: proofs\<close>

lemma decimal_four:
  assumes "1000 \<le> y" "y \<le> 9999"
  shows "decimal y = [''0123456789'' ! (y div 1000 mod 10), ''0123456789'' ! (y div 100 mod 10),
                      ''0123456789'' ! (y div 10 mod 10), ''0123456789'' ! (y mod 10)]"
proof -
  have a: "\<not> y < 10" "\<not> y div 10 < 10" "\<not> y div 100 < 10" "y div 1000 < 10"
    using assms by simp_all
  have b: "y div 10 div 10 = y div 100" "y div 100 div 10 = y div 1000"
    by (simp_all add: div_mult2_eq[symmetric])
  have "decimal (y div 1000) = [digit (y div 1000)]"
    using a(4) by (simp add: decimal.simps[of "y div 1000"])
  then have "decimal (y div 100) = [digit (y div 1000), digit (y div 100)]"
    using a(3) b(2) by (simp add: decimal.simps[of "y div 100"])
  then have "decimal (y div 10) = [digit (y div 1000), digit (y div 100), digit (y div 10)]"
    using a(2) b(1) by (simp add: decimal.simps[of "y div 10"])
  then have "decimal y = [digit (y div 1000), digit (y div 100), digit (y div 10), digit y]"
    using a(1) by (simp add: decimal.simps[of y])
  then show ?thesis by (simp add: digit_def)
qed

lemma strftime_four:
  assumes "1000 \<le> year ts" "year ts \<le> 9999"
  shows "strftime ts =
           [''0123456789'' ! (year ts div 1000 mod 10), ''0123456789'' ! (year ts div 100 mod 10),
            ''0123456789'' ! (year ts div 10 mod 10), ''0123456789'' ! (year ts mod 10),
            CHR ''-'',
            ''0123456789'' ! (month ts div 10 mod 10), ''0123456789'' ! (month ts mod 10),
            CHR ''-'',
            ''0123456789'' ! (day ts div 10 mod 10), ''0123456789'' ! (day ts mod 10),
            CHR '' '',
            ''0123456789'' ! (hour ts div 10 mod 10), ''0123456789'' ! (hour ts mod 10),
            CHR '':'',
            ''0123456789'' ! (minute ts div 10 mod 10), ''0123456789'' ! (minute ts mod 10)]"
  by (simp add: strftime_def decimal_four[OF assms] pad2_def digit_def)

lemma py_or_preferred:
  "py_or (dict_get d ''global_name'') (dict_get_default d ''username'' (JStr fallback))
     = preferred_name d fallback"
  by (simp add: py_or_def preferred_name_def dict_get_default_def)

lemma try_strftime_handled:
  "time_handled (local_time v) \<Longrightarrow> try_strftime local_time v '''' = Inr (the_time (local_time v))"
  by (cases "local_time v") (auto simp: try_strftime_def)

lemma message_line_wf:
  "well_formed_message msg \<Longrightarrow> time_handled (local_time (field_of msg ''timestamp''))
   \<Longrightarrow> message_line local_time bot_id msg = Inr (the_line local_time bot_id msg)"
  by (cases msg)
    (auto simp: the_line_def py_or_preferred Let_def try_strftime_handled split: json.splits)


lemma messages_loop_wf:
  "list_all well_formed_message ms
   \<Longrightarrow> list_all (\<lambda>msg. time_handled (local_time (field_of msg ''timestamp''))) ms
   \<Longrightarrow> messages_loop local_time bot_id ms w
         = (Done, w\<lparr>screen := screen w @ map (the_line local_time bot_id) ms\<rparr>)"
proof (induction ms arbitrary: w)
  case Nil
  then show ?case by simp
next
  case (Cons m ms)
  then show ?case by (simp add: message_line_wf render_def)
qed

text \<open>
  The example of the specification: one message of the bot, on a machine in UTC.
\<close>

lemma display_messages_example:
  "display_messages example_clock [example_message] ''BOT'' fresh_world
   = (Done, fresh_world\<lparr>screen := [ChatMessage ''assistant''
        [Caption [Lit ''**'', Val (JStr ''Unknown''), Lit (''** '' @ middle_dot @ '' ''),
                  Val (JStr ''2024-01-01 00:00'')],
         Markdown [Val (JStr ''hi'')]]]\<rparr>)"
  by (simp add: display_messages_def example_message_def example_clock_def fresh_world_def
      dict_get_default_def dict_get_def py_eq_def py_or_def render_def try_strftime_def
      strftime_def pad2_def decimal.simps digit_def)

text \<open>
  The \<^verbatim>\<open>except\<close> clause names \<^verbatim>\<open>ValueError\<close> and \<^verbatim>\<open>TypeError\<close> only: a
  timestamp whose local time overflows ends the rendering with the exception.
\<close>

lemma display_messages_overflow_example:
  "display_messages example_clock [overflow_message] ''BOT'' fresh_world
   = (Raised OverflowError, fresh_world)"
  by (simp add: display_messages_def overflow_message_def example_clock_def
      dict_get_default_def dict_get_def try_strftime_def)

text \<open>
  Claim C6, as amended. On the empty list \<^verbatim>\<open>display_messages\<close> renders the
  placeholder and returns. On a non-empty list of messages, each a dict with a dict for
  its author and a timestamp whose conversion to local time returns or raises
  \<^verbatim>\<open>ValueError\<close> or \<^verbatim>\<open>TypeError\<close>, it returns after rendering one line per
  message, the lines in the reverse of the order of the list. The line of a message is
  tagged \<^verbatim>\<open>assistant\<close> when the id of its author equals the id of the bot and
  \<^verbatim>\<open>user\<close> otherwise. Its time, for a local time with a year of four digits, is the
  sixteen characters \<^verbatim>\<open>YYYY-MM-DD HH:MM\<close>: the four decimal digits of the year, a
  hyphen, the two digits of the month, a hyphen, the two digits of the day, a space, the
  two digits of the hour, a colon and the two digits of the minute. Its time is the empty
  text when the conversion raises.
\<close>

theorem display_messages_feed:
  "display_messages local_time [] bot_id w = (Done, render (Caption [Lit ''No messages yet.'']) w)
   \<and> (messages \<noteq> [] \<and> list_all well_formed_message messages
       \<and> list_all (\<lambda>msg. time_handled (local_time (field_of msg ''timestamp''))) messages \<longrightarrow>
        (\<exists>lines. display_messages local_time messages bot_id w
                    = (Done, w\<lparr>screen := screen w @ lines\<rparr>)
           \<and> length lines = length messages
           \<and> (\<forall>i<length messages. \<exists>t.
                 lines ! i
                   = ChatMessage
                       (if py_eq (dict_get (author_of (rev messages ! i)) ''id'') (JStr bot_id)
                        then ''assistant'' else ''user'')
                       [Caption [Lit ''**'',
                                 Val (preferred_name (author_of (rev messages ! i)) ''Unknown''),
                                 Lit (''** '' @ middle_dot @ '' ''), Val (JStr t)],
                        Markdown [Val (field_of (rev messages ! i) ''content'')]]
                 \<and> (\<forall>ts. local_time (field_of (rev messages ! i) ''timestamp'') = Inr ts
                          \<and> 1000 \<le> year ts \<and> year ts \<le> 9999 \<longrightarrow>
                       t = [''0123456789'' ! (year ts div 1000 mod 10),
                            ''0123456789'' ! (year ts div 100 mod 10),
                            ''0123456789'' ! (year ts div 10 mod 10),
                            ''0123456789'' ! (year ts mod 10),
                            CHR ''-'',
                            ''0123456789'' ! (month ts div 10 mod 10),
                            ''0123456789'' ! (month ts mod 10),
                            CHR ''-'',
                            ''0123456789'' ! (day ts div 10 mod 10),
                            ''0123456789'' ! (day ts mod 10),
                            CHR '' '',
                            ''0123456789'' ! (hour ts div 10 mod 10),
                            ''0123456789'' ! (hour ts mod 10),
                            CHR '':'',
                            ''0123456789'' ! (minute ts div 10 mod 10),
                            ''0123456789'' ! (minute ts mod 10)])
                 \<and> (\<forall>exc. local_time (field_of (rev messages ! i) ''timestamp'') = Inl exc
                       \<longrightarrow> t = ''''))))"
proof -
  have a: "display_messages local_time [] bot_id w
             = (Done, render (Caption [Lit ''No messages yet.'']) w)"
    by (simp add: display_messages_def)
  have b: "\<exists>lines. display_messages local_time messages bot_id w
                    = (Done, w\<lparr>screen := screen w @ lines\<rparr>)
           \<and> length lines = length messages
           \<and> (\<forall>i<length messages. \<exists>t.
                 lines ! i
                   = ChatMessage
                       (if py_eq (dict_get (author_of (rev messages ! i)) ''id'') (JStr bot_id)
                        then ''assistant'' else ''user'')
                       [Caption [Lit ''**'',
                                 Val (preferred_name (author_of (rev messages ! i)) ''Unknown''),
                                 Lit (''** '' @ middle_dot @ '' ''), Val (JStr t)],
                        Markdown [Val (field_of (rev messages ! i) ''content'')]]
                 \<and> (\<forall>ts. local_time (field_of (rev messages ! i) ''timestamp'') = Inr ts
                          \<and> 1000 \<le> year ts \<and> year ts \<le> 9999 \<longrightarrow>
                       t = [''0123456789'' ! (year ts div 1000 mod 10),
                            ''0123456789'' ! (year ts div 100 mod 10),
                            ''0123456789'' ! (year ts div 10 mod 10),
                            ''0123456789'' ! (year ts mod 10),
                            CHR ''-'',
                            ''0123456789'' ! (month ts div 10 mod 10),
                            ''0123456789'' ! (month ts mod 10),
                            CHR ''-'',
                            ''0123456789'' ! (day ts div 10 mod 10),
                            ''0123456789'' ! (day ts mod 10),
                            CHR '' '',
                            ''0123456789'' ! (hour ts div 10 mod 10),
                            ''0123456789'' ! (hour ts mod 10),
                            CHR '':'',
                            ''0123456789'' ! (minute ts div 10 mod 10),
                            ''0123456789'' ! (minute ts mod 10)])
                 \<and> (\<forall>exc. local_time (field_of (rev messages ! i) ''timestamp'') = Inl exc
                       \<longrightarrow> t = ''''))"
    if ne: "messages \<noteq> []" and wf: "list_all well_formed_message messages"
      and th: "list_all (\<lambda>msg. time_handled (local_time (field_of msg ''timestamp''))) messages"
  proof (intro exI[of _ "map (the_line local_time bot_id) (rev messages)"] conjI allI impI)
    show "display_messages local_time messages bot_id w
            = (Done, w\<lparr>screen := screen w @ map (the_line local_time bot_id) (rev messages)\<rparr>)"
      using ne wf th by (simp add: display_messages_def messages_loop_wf)
    show "length (map (the_line local_time bot_id) (rev messages)) = length messages" by simp
  next
    fix i assume i: "i < length messages"
    let ?m = "rev messages ! i"
    let ?t = "the_time (local_time (field_of ?m ''timestamp''))"
    have line: "map (the_line local_time bot_id) (rev messages) ! i
                 = the_line local_time bot_id ?m" using i by simp
    have four: "?t = strftime ts"
      if "local_time (field_of ?m ''timestamp'') = Inr ts" for ts
      using that by simp
    have none: "?t = ''''" if "local_time (field_of ?m ''timestamp'') = Inl exc" for exc
      using that by simp
    show "\<exists>t. map (the_line local_time bot_id) (rev messages) ! i
         = ChatMessage
             (if py_eq (dict_get (author_of ?m) ''id'') (JStr bot_id)
              then ''assistant'' else ''user'')
             [Caption [Lit ''**'', Val (preferred_name (author_of ?m) ''Unknown''),
                       Lit (''** '' @ middle_dot @ '' ''), Val (JStr t)],
              Markdown [Val (field_of ?m ''content'')]]
         \<and> (\<forall>ts. local_time (field_of ?m ''timestamp'') = Inr ts
                  \<and> 1000 \<le> year ts \<and> year ts \<le> 9999 \<longrightarrow>
               t = [''0123456789'' ! (year ts div 1000 mod 10),
                    ''0123456789'' ! (year ts div 100 mod 10),
                    ''0123456789'' ! (year ts div 10 mod 10),
                    ''0123456789'' ! (year ts mod 10),
                    CHR ''-'',
                    ''0123456789'' ! (month ts div 10 mod 10),
                    ''0123456789'' ! (month ts mod 10),
                    CHR ''-'',
                    ''0123456789'' ! (day ts div 10 mod 10),
                    ''0123456789'' ! (day ts mod 10),
                    CHR '' '',
                    ''0123456789'' ! (hour ts div 10 mod 10),
                    ''0123456789'' ! (hour ts mod 10),
                    CHR '':'',
                    ''0123456789'' ! (minute ts div 10 mod 10),
                    ''0123456789'' ! (minute ts mod 10)])
         \<and> (\<forall>exc. local_time (field_of ?m ''timestamp'') = Inl exc \<longrightarrow> t = '''')"
    proof (intro exI[of _ ?t] conjI allI impI)
      show "map (the_line local_time bot_id) (rev messages) ! i
         = ChatMessage
             (if py_eq (dict_get (author_of ?m) ''id'') (JStr bot_id)
              then ''assistant'' else ''user'')
             [Caption [Lit ''**'', Val (preferred_name (author_of ?m) ''Unknown''),
                       Lit (''** '' @ middle_dot @ '' ''), Val (JStr ?t)],
              Markdown [Val (field_of ?m ''content'')]]"
        unfolding line by (simp add: the_line_def)
    next
      fix ts
      assume h: "local_time (field_of ?m ''timestamp'') = Inr ts
                 \<and> 1000 \<le> year ts \<and> year ts \<le> 9999"
      then have "?t = strftime ts" using four by blast
      also have "\<dots> = [''0123456789'' ! (year ts div 1000 mod 10),
                    ''0123456789'' ! (year ts div 100 mod 10),
                    ''0123456789'' ! (year ts div 10 mod 10),
                    ''0123456789'' ! (year ts mod 10),
                    CHR ''-'',
                    ''0123456789'' ! (month ts div 10 mod 10),
                    ''0123456789'' ! (month ts mod 10),
                    CHR ''-'',
                    ''0123456789'' ! (day ts div 10 mod 10),
                    ''0123456789'' ! (day ts mod 10),
                    CHR '' '',
                    ''0123456789'' ! (hour ts div 10 mod 10),
                    ''0123456789'' ! (hour ts mod 10),
                    CHR '':'',
                    ''0123456789'' ! (minute ts div 10 mod 10),
                    ''0123456789'' ! (minute ts mod 10)]"
        using h by (intro strftime_four) simp_all
      finally show "?t = [''0123456789'' ! (year ts div 1000 mod 10),
                    ''0123456789'' ! (year ts div 100 mod 10),
                    ''0123456789'' ! (year ts div 10 mod 10),
                    ''0123456789'' ! (year ts mod 10),
                    CHR ''-'',
                    ''0123456789'' ! (month ts div 10 mod 10),
                    ''0123456789'' ! (month ts mod 10),
                    CHR ''-'',
                    ''0123456789'' ! (day ts div 10 mod 10),
                    ''0123456789'' ! (day ts mod 10),
                    CHR '' '',
                    ''0123456789'' ! (hour ts div 10 mod 10),
                    ''0123456789'' ! (hour ts mod 10),
                    CHR '':'',
                    ''0123456789'' ! (minute ts div 10 mod 10),
                    ''0123456789'' ! (minute ts mod 10)]" .
    next
      fix exc
      assume "local_time (field_of ?m ''timestamp'') = Inl exc"
      then show "?t = ''''" using none by blast
    qed
  qed
  show ?thesis using a b by blast
qed

theorem display_messages_feed_witness:
  "list_all well_formed_message [broken_clock_message, example_message]
   \<and> list_all (\<lambda>msg. time_handled (example_clock (field_of msg ''timestamp'')))
        [broken_clock_message, example_message]
   \<and> display_messages example_clock [broken_clock_message, example_message] ''BOT'' fresh_world
       = (Done, fresh_world\<lparr>screen :=
            [ChatMessage ''assistant''
               [Caption [Lit ''**'', Val (JStr ''Unknown''), Lit (''** '' @ middle_dot @ '' ''),
                         Val (JStr ''2024-01-01 00:00'')],
                Markdown [Val (JStr ''hi'')]],
             ChatMessage ''user''
               [Caption [Lit ''**'', Val (JStr ''ann''), Lit (''** '' @ middle_dot @ '' ''),
                         Val (JStr '''')],
                Markdown [Val (JStr ''hello'')]]]\<rparr>)"
proof -
  have wf: "list_all well_formed_message [broken_clock_message, example_message]"
    by (simp add: broken_clock_message_def example_message_def dict_get_default_def)
  have th: "list_all (\<lambda>msg. time_handled (example_clock (field_of msg ''timestamp'')))
        [broken_clock_message, example_message]"
    by (simp add: broken_clock_message_def example_message_def dict_get_default_def
        example_clock_def)
  have ne: "[broken_clock_message, example_message] \<noteq> []" by simp
  from display_messages_feed[of example_clock "''BOT''" fresh_world
      "[broken_clock_message, example_message]"] wf th ne
  obtain lines where
    run: "display_messages example_clock [broken_clock_message, example_message] ''BOT''
            fresh_world = (Done, fresh_world\<lparr>screen := screen fresh_world @ lines\<rparr>)"
    and len: "length lines = length [broken_clock_message, example_message]"
    and each: "\<forall>i<length [broken_clock_message, example_message]. \<exists>t.
                 lines ! i
                   = ChatMessage
                       (if py_eq (dict_get (author_of (rev [broken_clock_message, example_message] ! i)) ''id'') (JStr ''BOT'')
                        then ''assistant'' else ''user'')
                       [Caption [Lit ''**'',
                                 Val (preferred_name (author_of (rev [broken_clock_message, example_message] ! i)) ''Unknown''),
                                 Lit (''** '' @ middle_dot @ '' ''), Val (JStr t)],
                        Markdown [Val (field_of (rev [broken_clock_message, example_message] ! i) ''content'')]]
                 \<and> (\<forall>ts. example_clock (field_of (rev [broken_clock_message, example_message] ! i) ''timestamp'') = Inr ts
                          \<and> 1000 \<le> year ts \<and> year ts \<le> 9999 \<longrightarrow>
                       t = [''0123456789'' ! (year ts div 1000 mod 10),
                            ''0123456789'' ! (year ts div 100 mod 10),
                            ''0123456789'' ! (year ts div 10 mod 10),
                            ''0123456789'' ! (year ts mod 10),
                            CHR ''-'',
                            ''0123456789'' ! (month ts div 10 mod 10),
                            ''0123456789'' ! (month ts mod 10),
                            CHR ''-'',
                            ''0123456789'' ! (day ts div 10 mod 10),
                            ''0123456789'' ! (day ts mod 10),
                            CHR '' '',
                            ''0123456789'' ! (hour ts div 10 mod 10),
                            ''0123456789'' ! (hour ts mod 10),
                            CHR '':'',
                            ''0123456789'' ! (minute ts div 10 mod 10),
                            ''0123456789'' ! (minute ts mod 10)])
                 \<and> (\<forall>exc. example_clock (field_of (rev [broken_clock_message, example_message] ! i) ''timestamp'') = Inl exc
                       \<longrightarrow> t = '''')"
    by blast
  have c0: "example_clock (field_of (rev [broken_clock_message, example_message] ! 0) ''timestamp'')
              = Inr \<lparr>year = 2024, month = 1, day = 1, hour = 0, minute = 0\<rparr>"
    by (simp add: example_message_def example_clock_def dict_get_default_def)
  have c1: "example_clock (field_of (rev [broken_clock_message, example_message] ! 1) ''timestamp'')
              = Inl ValueError"
    by (simp add: broken_clock_message_def example_clock_def dict_get_default_def)
  from each[rule_format, of 0] c0 obtain t0 where
    l0: "lines ! 0 = ChatMessage
           (if py_eq (dict_get (author_of (rev [broken_clock_message, example_message] ! 0)) ''id'') (JStr ''BOT'')
            then ''assistant'' else ''user'')
           [Caption [Lit ''**'',
                     Val (preferred_name (author_of (rev [broken_clock_message, example_message] ! 0)) ''Unknown''),
                     Lit (''** '' @ middle_dot @ '' ''), Val (JStr t0)],
            Markdown [Val (field_of (rev [broken_clock_message, example_message] ! 0) ''content'')]]"
    and t0: "t0 = ''2024-01-01 00:00''"
    by auto
  from each[rule_format, of 1] c1 obtain t1 where
    l1: "lines ! 1 = ChatMessage
           (if py_eq (dict_get (author_of (rev [broken_clock_message, example_message] ! 1)) ''id'') (JStr ''BOT'')
            then ''assistant'' else ''user'')
           [Caption [Lit ''**'',
                     Val (preferred_name (author_of (rev [broken_clock_message, example_message] ! 1)) ''Unknown''),
                     Lit (''** '' @ middle_dot @ '' ''), Val (JStr t1)],
            Markdown [Val (field_of (rev [broken_clock_message, example_message] ! 1) ''content'')]]"
    and t1: "t1 = ''''"
    by auto
  have two: "lines = [lines ! 0, lines ! 1]"
    using len by (cases lines; cases "tl lines"; cases "tl (tl lines)") auto
  have lines: "lines =
            [ChatMessage ''assistant''
               [Caption [Lit ''**'', Val (JStr ''Unknown''), Lit (''** '' @ middle_dot @ '' ''),
                         Val (JStr ''2024-01-01 00:00'')],
                Markdown [Val (JStr ''hi'')]],
             ChatMessage ''user''
               [Caption [Lit ''**'', Val (JStr ''ann''), Lit (''** '' @ middle_dot @ '' ''),
                         Val (JStr '''')],
                Markdown [Val (JStr ''hello'')]]]"
    apply (subst two)
    apply (simp only: l0 l1 t0 t1)
    apply (simp add: broken_clock_message_def example_message_def dict_get_default_def
        dict_get_def py_eq_def preferred_name_def)
    done
  show ?thesis
    using wf th run unfolding lines by (simp add: fresh_world_def)
qed

text \<open>
  Claim C6 as stated fails on a timestamp before the year 1000: the year is printed with
  the digits it has, and the time rendered is not of the shape
  \<^verbatim>\<open>YYYY-MM-DD HH:MM\<close>.
\<close>

theorem display_messages_early_year_counterexample:
  "well_formed_message early_message
   \<and> example_clock (field_of early_message ''timestamp'')
       = Inr \<lparr>year = 999, month = 6, day = 1, hour = 12, minute = 0\<rparr>
   \<and> display_messages example_clock [early_message] ''BOT'' fresh_world
       = (Done, fresh_world\<lparr>screen :=
            [ChatMessage ''user''
               [Caption [Lit ''**'', Val (JStr ''ann''), Lit (''** '' @ middle_dot @ '' ''),
                         Val (JStr ''999-06-01 12:00'')],
                Markdown [Val (JStr ''old'')]]]\<rparr>)
   \<and> \<not> ymd_hm ''999-06-01 12:00''"
  by (simp add: display_messages_def early_message_def example_clock_def fresh_world_def
      dict_get_default_def dict_get_def py_eq_def py_or_def render_def try_strftime_def
      strftime_def pad2_def decimal.simps digit_def ymd_hm_def)






section \<open>Onboarding: proofs\<close>

lemma names_of_users_named:
  "list_all named_record us \<Longrightarrow> \<exists>ns. names_of_users us = Inr ns \<and> list_all is_str ns"
proof (induction us)
  case Nil
  then show ?case by simp
next
  case (Cons u us)
  then obtain ns where ns: "names_of_users us = Inr ns" "list_all is_str ns" by auto
  from Cons.prems obtain d where d: "u = JObj d" "is_str (preferred_name d ''?'')"
    by (cases u) auto
  show ?case using ns d by (simp add: py_or_preferred)
qed

lemma join_strings: "list_all is_str ns \<Longrightarrow> \<exists>t. join sep ns = Inr t"
proof (induction sep ns rule: join.induct)
  case (3 sep s n ns)
  then show ?case by auto
qed simp_all

lemma connected_ok:
  assumes "named_users config" "truthy (dict_get_default config ''authorized_users'' (JList []))"
  shows "\<exists>joined. (case onboarding_names (dict_get_default config ''authorized_users'' (JList [])) of
           Inl exc \<Rightarrow> Inl exc
         | Inr names \<Rightarrow> (case join '', '' names of Inl exc \<Rightarrow> Inl exc | Inr joined \<Rightarrow> Inr (f joined)))
        = Inr (f joined)"
proof -
  from assms obtain us where us: "dict_get_default config ''authorized_users'' (JList []) = JList us"
    "list_all named_record us"
    by (cases "dict_get_default config ''authorized_users'' (JList [])") (auto simp: named_users_def)
  from names_of_users_named[OF us(2)] obtain ns where ns: "names_of_users us = Inr ns" "list_all is_str ns"
    by blast
  from join_strings[OF ns(2)] obtain t where "join '', '' ns = Inr t" by blast
  then show ?thesis using us ns by auto
qed

lemma status_view:
  assumes "truthy (dict_get_default config ''authorized_users'' (JList []))
           \<or> truthy (dict_get config ''channel_id'')"
    and "named_users config"
  shows "fst (show_onboarding e onboarding_dm onboarding_channel config w) = Done
         \<and> snd (show_onboarding e onboarding_dm onboarding_channel config w)
             = w\<lparr>screen := screen w
                   @ added w (snd (show_onboarding e onboarding_dm onboarding_channel config w))\<rparr>
         \<and> status_summary_view
              (added w (snd (show_onboarding e onboarding_dm onboarding_channel config w)))
         \<and> \<not> list_ex wizard_widget
              (added w (snd (show_onboarding e onboarding_dm onboarding_channel config w)))
         \<and> show_onboarding e onboarding_dm onboarding_channel config w
             = show_onboarding e other_dm other_channel config w"
proof (cases "truthy (dict_get_default config ''authorized_users'' (JList []))")
  case True
  from connected_ok[OF assms(2) True, of "\<lambda>joined. render (Success [Lit ''Connected: **'', Val (JStr joined), Lit ''**'']) (render (Title [Lit ''Gopf Intel'']) w)"]
  obtain joined where j: "(case onboarding_names (dict_get_default config ''authorized_users'' (JList [])) of
           Inl exc \<Rightarrow> Inl exc
         | Inr names \<Rightarrow> (case join '', '' names of Inl exc \<Rightarrow> Inl exc
              | Inr joined \<Rightarrow> Inr (render (Success [Lit ''Connected: **'', Val (JStr joined), Lit ''**'']) (render (Title [Lit ''Gopf Intel'']) w))))
        = Inr (render (Success [Lit ''Connected: **'', Val (JStr joined), Lit ''**'']) (render (Title [Lit ''Gopf Intel'']) w))"
    by blast
  show ?thesis
    unfolding show_onboarding_def Let_def
    using True j
    by (simp add: render_def status_summary_view_def added_def connect_button_def)
next
  case False
  with assms(1) have c: "truthy (dict_get config ''channel_id'')" by simp
  show ?thesis
    unfolding show_onboarding_def Let_def
    using False c
    by (simp add: render_def status_summary_view_def added_def connect_button_def)
qed

lemma wizard_view:
  assumes "\<not> truthy (dict_get_default config ''authorized_users'' (JList []))"
    and "\<not> truthy (dict_get config ''channel_id'')"
    and "onboarding_step w = None \<or> onboarding_step w = Some ''choose''"
  shows "step_selection_view
           (added w (snd (show_onboarding e onboarding_dm onboarding_channel config w)))
         \<and> \<not> status_summary_view
              (added w (snd (show_onboarding e onboarding_dm onboarding_channel config w)))
         \<and> (clicked w = [] \<longrightarrow>
              fst (show_onboarding e onboarding_dm onboarding_channel config w) = Done
              \<and> onboarding_step (snd (show_onboarding e onboarding_dm onboarding_channel config w))
                  = Some ''choose'')"
  unfolding show_onboarding_def Let_def
  using assms
  by (auto simp: render_def status_summary_view_def step_selection_view_def added_def)

text \<open>
  What \<^verbatim>\<open>show_onboarding\<close> does where the names of the user records are
  strings. For such a configuration with a non-empty list of user records or a non-empty
  \<^verbatim>\<open>channel_id\<close>, it returns after adding the status summary,
  with its link to the Admin Dashboard, to the screen: it adds no heading and no button
  of the wizard, changes nothing but the screen (the wizard step of the session stays as
  it was) and does not depend on the step views. With neither of the two, and a session
  that is new or at the step \<^verbatim>\<open>choose\<close>, it renders the step selection and not the
  status summary, and the step of the session is \<^verbatim>\<open>choose\<close> when no button was
  pressed.
\<close>

theorem show_onboarding_bypass:
  "((truthy (dict_get_default config ''authorized_users'' (JList []))
      \<or> truthy (dict_get config ''channel_id''))
     \<and> named_users config \<longrightarrow>
       fst (show_onboarding e onboarding_dm onboarding_channel config w) = Done
       \<and> snd (show_onboarding e onboarding_dm onboarding_channel config w)
           = w\<lparr>screen := screen w
                 @ added w (snd (show_onboarding e onboarding_dm onboarding_channel config w))\<rparr>
       \<and> status_summary_view
            (added w (snd (show_onboarding e onboarding_dm onboarding_channel config w)))
       \<and> \<not> list_ex wizard_widget
            (added w (snd (show_onboarding e onboarding_dm onboarding_channel config w)))
       \<and> show_onboarding e onboarding_dm onboarding_channel config w
           = show_onboarding e other_dm other_channel config w)
   \<and> (\<not> truthy (dict_get_default config ''authorized_users'' (JList []))
       \<and> \<not> truthy (dict_get config ''channel_id'')
       \<and> (onboarding_step w = None \<or> onboarding_step w = Some ''choose'') \<longrightarrow>
         step_selection_view
           (added w (snd (show_onboarding e onboarding_dm onboarding_channel config w)))
         \<and> \<not> status_summary_view
              (added w (snd (show_onboarding e onboarding_dm onboarding_channel config w)))
         \<and> (clicked w = [] \<longrightarrow>
              fst (show_onboarding e onboarding_dm onboarding_channel config w) = Done
              \<and> onboarding_step (snd (show_onboarding e onboarding_dm onboarding_channel config w))
                  = Some ''choose''))"
  using status_view[of config e onboarding_dm onboarding_channel w other_dm other_channel]
    wizard_view[of config w e onboarding_dm onboarding_channel]
  by blast

theorem show_onboarding_bypass_witness:
  "truthy (dict_get_default one_user_config ''authorized_users'' (JList []))
   \<and> named_users one_user_config
   \<and> show_onboarding no_oauth no_step no_step one_user_config fresh_world
       = (Done, fresh_world\<lparr>screen :=
            [Title [Lit ''Gopf Intel''],
             Success [Lit ''Connected: **'', Val (JStr ''ann''), Lit ''**''],
             Markdown [Lit ''[Open Admin Dashboard](?admin)''],
             Divider, Caption [Lit ''[Admin Dashboard](?admin)'']]\<rparr>)
   \<and> status_summary_view
        (added fresh_world (snd (show_onboarding no_oauth no_step no_step one_user_config fresh_world)))
   \<and> \<not> list_ex wizard_widget
        (added fresh_world (snd (show_onboarding no_oauth no_step no_step one_user_config fresh_world)))
   \<and> step_selection_view
        (added fresh_world (snd (show_onboarding no_oauth no_step no_step [] fresh_world)))
   \<and> onboarding_step (snd (show_onboarding no_oauth no_step no_step [] fresh_world))
       = Some ''choose''"
proof -
  have h1: "truthy (dict_get_default one_user_config ''authorized_users'' (JList []))"
    by (simp add: one_user_config_def dict_get_default_def)
  have h2: "named_users one_user_config"
    by (simp add: named_users_def one_user_config_def dict_get_default_def preferred_name_def
        dict_get_def)
  have h3: "\<not> truthy (dict_get_default [] ''authorized_users'' (JList []))"
    "\<not> truthy (dict_get [] ''channel_id'')"
    "onboarding_step fresh_world = None" "clicked fresh_world = []"
    by (simp_all add: dict_get_default_def dict_get_def fresh_world_def)
  have run: "show_onboarding no_oauth no_step no_step one_user_config fresh_world
       = (Done, fresh_world\<lparr>screen :=
            [Title [Lit ''Gopf Intel''],
             Success [Lit ''Connected: **'', Val (JStr ''ann''), Lit ''**''],
             Markdown [Lit ''[Open Admin Dashboard](?admin)''],
             Divider, Caption [Lit ''[Admin Dashboard](?admin)'']]\<rparr>)"
    by (simp add: show_onboarding_def one_user_config_def dict_get_default_def dict_get_def
        py_or_def render_def no_oauth_def OAUTH2_AVAILABLE_def fresh_world_def)
  from show_onboarding_bypass[of one_user_config no_oauth no_step no_step fresh_world
      no_step no_step] h1 h2
  have a: "status_summary_view
        (added fresh_world (snd (show_onboarding no_oauth no_step no_step one_user_config fresh_world)))"
    and b: "\<not> list_ex wizard_widget
        (added fresh_world (snd (show_onboarding no_oauth no_step no_step one_user_config fresh_world)))"
    by blast+
  from show_onboarding_bypass[of "[]" no_oauth no_step no_step fresh_world no_step no_step] h3
  have c: "step_selection_view
        (added fresh_world (snd (show_onboarding no_oauth no_step no_step [] fresh_world)))"
    and d: "onboarding_step (snd (show_onboarding no_oauth no_step no_step [] fresh_world))
       = Some ''choose''"
    by blast+
  show ?thesis using h1 h2 run a b c d by simp
qed

text \<open>
  Claim C7 at a failing input. From a legacy file whose \<^verbatim>\<open>dm_username\<close> is null,
  \<^verbatim>\<open>migrate_config\<close> writes a user record whose \<^verbatim>\<open>username\<close> and
  \<^verbatim>\<open>global_name\<close> are null. The configuration has one record in
  \<^verbatim>\<open>authorized_users\<close>, so \<^verbatim>\<open>show_onboarding\<close> takes the branch of the status
  summary; it renders the title and then \<^verbatim>\<open>', '.join(names)\<close> raises
  \<^verbatim>\<open>TypeError\<close>: the status lines and the link to the Admin Dashboard are not
  rendered.
\<close>

theorem show_onboarding_null_name:
  "fst (migrate_config ''2024-01-01T00:00:00+00:00'' legacy_config_null_name
          (Some legacy_config_null_name)) = null_name_config
   \<and> truthy (dict_get_default null_name_config ''authorized_users'' (JList []))
   \<and> show_onboarding no_oauth no_step no_step null_name_config fresh_world
       = (Raised TypeError, render (Title [Lit ''Gopf Intel'']) fresh_world)
   \<and> \<not> status_summary_view
         (added fresh_world
            (snd (show_onboarding no_oauth no_step no_step null_name_config fresh_world)))"
  by (simp add: migrate_config_def legacy_config_null_name_def null_name_config_def
      dict_get_def dict_get_default_def has_key_def save_config_def Let_def
      show_onboarding_def py_or_def render_def fresh_world_def added_def
      status_summary_view_def)

section \<open>OAuth2 callback handler: proofs\<close>

lemma untouched_fields:
  "untouched w w' \<Longrightarrow> config_json w' = config_json w \<and> screen w' = screen w
     \<and> query_params w' = query_params w"
  unfolding untouched_def by (metis world.select_convs(2,3,4) world.surjective world.update_convs(1))

lemma untouched_trans: "untouched a b \<Longrightarrow> untouched b c \<Longrightarrow> untouched a c"
  unfolding untouched_def
  by (metis (no_types, lifting) world.surjective world.update_convs(1))

lemma send_untouched: "send net rq w = (r, w') \<Longrightarrow> untouched w w'"
  by (auto simp: send_def untouched_def)

lemma exchange_untouched:
  "exchange_code_for_token net a b c d w = (r, w') \<Longrightarrow> untouched w w'"
  by (auto simp: exchange_code_for_token_def split: prod.splits dest: send_untouched)

lemma oauth_user_untouched: "get_oauth_user net a w = (r, w') \<Longrightarrow> untouched w w'"
  by (auto simp: get_oauth_user_def split: prod.splits dest: send_untouched)

lemma open_dm_untouched: "open_dm_channel net t u w = (r, w') \<Longrightarrow> untouched w w'"
  by (auto simp: open_dm_channel_def discord_request_def split: prod.splits dest: send_untouched)

lemma checked_json_request_exception: "checked_json r = Inl exc \<Longrightarrow> is_request_exception exc"
  by (auto simp: checked_json_def raise_for_status_def resp_json_def
      split: reply.splits if_splits option.splits)

lemma exchange_request_exception:
  "fst (exchange_code_for_token net a b c d w) = Inl exc \<Longrightarrow> is_request_exception exc"
  by (auto simp: exchange_code_for_token_def split: prod.splits dest: checked_json_request_exception)

lemma oauth_user_request_exception:
  "fst (get_oauth_user net a w) = Inl exc \<Longrightarrow> is_request_exception exc"
  by (auto simp: get_oauth_user_def split: prod.splits dest: checked_json_request_exception)

lemma open_dm_request_exception:
  "fst (open_dm_channel net t u w) = Inl exc \<Longrightarrow> is_request_exception exc"
  by (auto simp: open_dm_channel_def split: prod.splits dest: checked_json_request_exception)

lemma oauth_try_error_untouched:
  assumes "oauth_try e net now oauth_code gid config w = (Inl exc, w')"
  shows "untouched w w'"
proof -
  obtain r1 w1 where s1: "exchange_code_for_token net oauth_code (CLIENT_ID e) (CLIENT_SECRET e)
             (REDIRECT_URI e) w = (r1, w1)" by (metis prod.collapse)
  have u1: "untouched w w1" using exchange_untouched[OF s1] .
  show ?thesis
  proof (cases r1)
    case (Inl x)
    then show ?thesis using assms s1 u1 by (simp add: oauth_try_def)
  next
    case (Inr token_data)
    note td = this
    show ?thesis
    proof (cases "subscript token_data ''access_token''")
      case (Inl x)
      then show ?thesis using assms s1 u1 td by (simp add: oauth_try_def)
    next
      case (Inr access_token)
      note at = this
      obtain r2 w2 where s2: "get_oauth_user net access_token w1 = (r2, w2)" by (metis prod.collapse)
      have u2: "untouched w w2" using u1 oauth_user_untouched[OF s2] by (rule untouched_trans)
      show ?thesis
      proof (cases r2)
        case (Inl x)
        then show ?thesis using assms s1 td at s2 u2 by (simp add: oauth_try_def)
      next
        case (Inr user_data)
        note ud = this
        show ?thesis
        proof (cases "subscript user_data ''id''")
          case (Inl x)
          then show ?thesis using assms s1 td at s2 ud u2 by (simp add: oauth_try_def)
        next
          case (Inr user_id)
          note uid = this
          obtain r3 w3 where s3: "open_dm_channel net (BOT_TOKEN e) user_id w2 = (r3, w3)"
            by (metis prod.collapse)
          have u3: "untouched w w3" using u2 open_dm_untouched[OF s3] by (rule untouched_trans)
          show ?thesis
            using assms s1 td at s2 ud uid s3 u3
            by (auto simp: oauth_try_def Let_def split: sum.splits json.splits)
        qed
      qed
    qed
  qed
qed

lemma oauth_handler:
  assumes "OAUTH2_AVAILABLE e" "map_of (query_params w) ''code'' = Some oauth_code"
    and "oauth_try e net now oauth_code
           (case map_of (query_params w) ''guild_id'' of None \<Rightarrow> '''' | Some g \<Rightarrow> g) config w
         = (Inl exc, w1)"
    and "is_request_exception exc" "untouched w w1"
  shows "\<exists>msg w'. oauth_callback e net now config w = (Stop, config, w')
           \<and> query_params w' = [] \<and> screen w' = screen w @ [Error msg]
           \<and> config_json w' = config_json w"
  using assms untouched_fields[OF assms(5)]
  by (cases exc) (auto simp: oauth_callback_def render_def)

text \<open>
  The handler does write the file when the three remote steps succeed.
\<close>

lemma oauth_callback_success_example:
  "config_json (snd (snd (oauth_callback oauth_env granting ''2024-01-01T00:00:00+00:00''
                            [(''guild_id'', JStr ''1'')] callback_world)))
     = Some [(''guild_id'', JStr ''1''),
             (''authorized_users'',
                JList [JObj [(''id'', JStr ''7''), (''username'', JStr ''ann''),
                             (''global_name'', JStr ''ann''), (''dm_channel_id'', JStr ''70''),
                             (''authorized_at'', JStr ''2024-01-01T00:00:00+00:00'')]])]
   \<and> fst (oauth_callback oauth_env granting ''2024-01-01T00:00:00+00:00''
            [(''guild_id'', JStr ''1'')] callback_world) = Stop"
  by (simp add: oauth_callback_def oauth_try_def exchange_code_for_token_def get_oauth_user_def
      open_dm_channel_def discord_request_def send_def checked_json_def raise_for_status_def
      resp_json_def granting_def oauth_env_def callback_world_def OAUTH2_AVAILABLE_def
      add_authorized_user_def dict_get_default_def dict_get_def py_or_def save_config_def
      render_def Let_def)

text \<open>
  Claim C4. Let the handler run (OAuth2 configured, a \<^verbatim>\<open>code\<close> in the query
  parameters) and let a step of the sequence raise an HTTP error or another
  \<^verbatim>\<open>RequestException\<close>: the exchange of the code, or, after it, the lookup of the
  identity, or, after both, the opening of the DM channel, or any point of the
  \<^verbatim>\<open>try\<close> block at all. Then the handler stops the run with the query parameters
  cleared, one error notice added to the screen, the configuration in memory as it was
  and the configuration file as it was before the sequence started.
\<close>

theorem oauth_callback_abort:
  assumes avail: "OAUTH2_AVAILABLE e"
    and code: "map_of (query_params w) ''code'' = Some oauth_code"
    and raised:
      "fst (exchange_code_for_token net oauth_code (CLIENT_ID e) (CLIENT_SECRET e)
              (REDIRECT_URI e) w) = Inl exc
       \<or> (\<exists>token_data w1 access_token.
             exchange_code_for_token net oauth_code (CLIENT_ID e) (CLIENT_SECRET e)
               (REDIRECT_URI e) w = (Inr token_data, w1)
             \<and> subscript token_data ''access_token'' = Inr access_token
             \<and> fst (get_oauth_user net access_token w1) = Inl exc)
       \<or> (\<exists>token_data w1 access_token user_data w2 user_id.
             exchange_code_for_token net oauth_code (CLIENT_ID e) (CLIENT_SECRET e)
               (REDIRECT_URI e) w = (Inr token_data, w1)
             \<and> subscript token_data ''access_token'' = Inr access_token
             \<and> get_oauth_user net access_token w1 = (Inr user_data, w2)
             \<and> subscript user_data ''id'' = Inr user_id
             \<and> fst (open_dm_channel net (BOT_TOKEN e) user_id w2) = Inl exc)
       \<or> (fst (oauth_try e net now oauth_code
                  (case map_of (query_params w) ''guild_id'' of None \<Rightarrow> '''' | Some g \<Rightarrow> g)
                  config w) = Inl exc
           \<and> is_request_exception exc)"
  shows "is_request_exception exc
         \<and> (\<exists>msg w'. oauth_callback e net now config w = (Stop, config, w')
               \<and> query_params w' = [] \<and> screen w' = screen w @ [Error msg]
               \<and> config_json w' = config_json w)"
proof -
  let ?g = "case map_of (query_params w) ''guild_id'' of None \<Rightarrow> '''' | Some g \<Rightarrow> g"
  from raised consider
    (one) "fst (exchange_code_for_token net oauth_code (CLIENT_ID e) (CLIENT_SECRET e)
              (REDIRECT_URI e) w) = Inl exc"
  | (two) token_data w1 access_token where
      "exchange_code_for_token net oauth_code (CLIENT_ID e) (CLIENT_SECRET e)
               (REDIRECT_URI e) w = (Inr token_data, w1)"
      "subscript token_data ''access_token'' = Inr access_token"
      "fst (get_oauth_user net access_token w1) = Inl exc"
  | (three) token_data w1 access_token user_data w2 user_id where
      "exchange_code_for_token net oauth_code (CLIENT_ID e) (CLIENT_SECRET e)
               (REDIRECT_URI e) w = (Inr token_data, w1)"
      "subscript token_data ''access_token'' = Inr access_token"
      "get_oauth_user net access_token w1 = (Inr user_data, w2)"
      "subscript user_data ''id'' = Inr user_id"
      "fst (open_dm_channel net (BOT_TOKEN e) user_id w2) = Inl exc"
  | (four) "fst (oauth_try e net now oauth_code ?g config w) = Inl exc"
      "is_request_exception exc"
    by blast
  then have "is_request_exception exc
     \<and> (\<exists>w1. oauth_try e net now oauth_code ?g config w = (Inl exc, w1) \<and> untouched w w1)"
  proof cases
    case one
    obtain w1 where x: "exchange_code_for_token net oauth_code (CLIENT_ID e) (CLIENT_SECRET e)
              (REDIRECT_URI e) w = (Inl exc, w1)"
      using one by (metis prod.collapse)
    have "oauth_try e net now oauth_code ?g config w = (Inl exc, w1)"
      using x by (simp add: oauth_try_def)
    then show ?thesis
      using exchange_request_exception[OF one] exchange_untouched[OF x] by blast
  next
    case two
    obtain w2 where x: "get_oauth_user net access_token w1 = (Inl exc, w2)"
      using two(3) by (metis prod.collapse)
    have "oauth_try e net now oauth_code ?g config w = (Inl exc, w2)"
      using two(1,2) x by (simp add: oauth_try_def)
    moreover have "untouched w w2"
      using exchange_untouched[OF two(1)] oauth_user_untouched[OF x] by (rule untouched_trans)
    ultimately show ?thesis
      using oauth_user_request_exception[OF two(3)] by blast
  next
    case three
    obtain w3 where x: "open_dm_channel net (BOT_TOKEN e) user_id w2 = (Inl exc, w3)"
      using three(5) by (metis prod.collapse)
    have "oauth_try e net now oauth_code ?g config w = (Inl exc, w3)"
      using three(1,2,3,4) x by (simp add: oauth_try_def)
    moreover have "untouched w w3"
      using untouched_trans[OF untouched_trans[OF exchange_untouched[OF three(1)]
            oauth_user_untouched[OF three(3)]] open_dm_untouched[OF x]] .
    ultimately show ?thesis
      using open_dm_request_exception[OF three(5)] by blast
  next
    case four
    obtain w1 where x: "oauth_try e net now oauth_code ?g config w = (Inl exc, w1)"
      using four(1) by (metis prod.collapse)
    then show ?thesis
      using four(2) oauth_try_error_untouched[OF x] by blast
  qed
  then obtain w1 where r: "is_request_exception exc"
      "oauth_try e net now oauth_code ?g config w = (Inl exc, w1)" "untouched w w1"
    by blast
  from oauth_handler[OF avail code r(2) r(1) r(3)] r(1) show ?thesis by blast
qed

theorem oauth_callback_abort_witness:
  "OAUTH2_AVAILABLE oauth_env
   \<and> map_of (query_params callback_world) ''code'' = Some ''abc''
   \<and> fst (exchange_code_for_token (answering unauthorized) ''abc'' (CLIENT_ID oauth_env)
            (CLIENT_SECRET oauth_env) (REDIRECT_URI oauth_env) callback_world)
       = Inl (HTTPError 401 (body_text unauthorized))
   \<and> (\<exists>msg w'. oauth_callback oauth_env (answering unauthorized) ''2024-01-01T00:00:00+00:00''
                   [(''guild_id'', JStr ''1'')] callback_world
                 = (Stop, [(''guild_id'', JStr ''1'')], w')
         \<and> query_params w' = [] \<and> screen w' = [Error msg]
         \<and> config_json w' = Some [(''guild_id'', JStr ''1'')])"
proof -
  have h1: "OAUTH2_AVAILABLE oauth_env"
    by (simp add: OAUTH2_AVAILABLE_def oauth_env_def)
  have h2: "map_of (query_params callback_world) ''code'' = Some ''abc''"
    by (simp add: callback_world_def)
  have h3: "fst (exchange_code_for_token (answering unauthorized) ''abc'' (CLIENT_ID oauth_env)
            (CLIENT_SECRET oauth_env) (REDIRECT_URI oauth_env) callback_world)
       = Inl (HTTPError 401 (body_text unauthorized))"
    by (simp add: exchange_code_for_token_def send_def checked_json_def raise_for_status_def
        answering_def unauthorized_def)
  have s: "screen callback_world = []" "config_json callback_world = Some [(''guild_id'', JStr ''1'')]"
    by (simp_all add: callback_world_def)
  from oauth_callback_abort[of oauth_env callback_world "''abc''" "answering unauthorized"
      "HTTPError 401 (body_text unauthorized)" "''2024-01-01T00:00:00+00:00''"
      "[(''guild_id'', JStr ''1'')]"] h1 h2 h3
  have "\<exists>msg w'. oauth_callback oauth_env (answering unauthorized) ''2024-01-01T00:00:00+00:00''
                   [(''guild_id'', JStr ''1'')] callback_world
                 = (Stop, [(''guild_id'', JStr ''1'')], w')
         \<and> query_params w' = [] \<and> screen w' = screen callback_world @ [Error msg]
         \<and> config_json w' = config_json callback_world"
    by blast
  then show ?thesis using h1 h2 h3 unfolding s by simp
qed

end
